theory Spec2Isabelle
  imports Complex_Main "HOL-Library.Word" "HOL-Library.Sublist"
begin

unbundle bit_operations_syntax

section \<open>Python values and exceptions\<close>

text \<open>
  The module stix2/properties.py is dynamically typed: every \<open>validate\<close>, \<open>clean\<close> and
  \<open>default\<close> takes and returns arbitrary Python objects and signals failure by raising.
  Values are the datatype \<open>pyval\<close>; a raise is the left injection of a sum.

  Scope of the value model (Python 3, \<open>six.PY2\<close> false):
  \<^item> \<open>str\<close> is a list of code points below 256 (\<open>char\<close> is 8 bits wide);
  \<^item> \<open>int\<close> is unbounded; a finite \<open>float\<close> is the rational it denotes;
  \<^item> a \<open>date\<close> is its proleptic Gregorian ordinal (\<open>date.toordinal()\<close>), a time of
    day is its number of microseconds since midnight;
  \<^item> a \<open>tzinfo\<close> is a zone name with a fixed offset from UTC in seconds;
  \<^item> a \<open>dict\<close> has string keys and is kept as an association list in insertion order,
    its keys distinct.
\<close>

datatype exn =
    ValueError string
  | TypeError
  | AttributeError
  | NotImplementedError
  | IndexError
  | OverflowError

type_synonym 'a result = "exn + 'a"

datatype pyfloat = Finite rat | Infinite bool | NaN

datatype tzinfo = Tz string int

record datetime =
  dt_date :: int
  dt_time :: int
  dt_tzinfo :: "tzinfo option"

text \<open>
  Modelled from the spec: the base object class \<open>_STIXBase\<close> of stix2/base.py, which this
  development does not embed. The spec calls it "the base object class that holds
  named properties", from which \<open>ReferenceProperty.validate\<close> "extracts its identifier".
  \<open>PObj\<close> is such an object, given by its named properties: reading an attribute reads
  the property of that name (\<open>AttributeError\<close> when there is none), and the object is a
  mapping over its property names.
\<close>

datatype pyval =
    PNone
  | PBool bool
  | PInt int
  | PFloat pyfloat
  | PStr string
  | PList "pyval list"
  | PDict "(string \<times> pyval) list"
  | PDate int
  | PDatetime datetime
  | PObj "(string \<times> pyval) list"

subsection \<open>Equality, truth value, attribute access\<close>

definition tz_utcoffset :: "tzinfo \<Rightarrow> int" where
  "tz_utcoffset z = (case z of Tz name secs \<Rightarrow> secs)"

text \<open>Microseconds from ordinal 0, midnight, as read on the wall clock of the value.\<close>

definition wall_micros :: "datetime \<Rightarrow> int" where
  "wall_micros d = dt_date d * 86400000000 + dt_time d"

text \<open>
  \<open>datetime.__eq__\<close>: two naive values compare their fields, two aware values compare
  the instants they denote, and a naive value never equals an aware one.
\<close>

definition datetime_eq :: "datetime \<Rightarrow> datetime \<Rightarrow> bool" where
  "datetime_eq a b =
     (case (dt_tzinfo a, dt_tzinfo b) of
        (None, None) \<Rightarrow> wall_micros a = wall_micros b
      | (Some za, Some zb) \<Rightarrow>
          wall_micros a - tz_utcoffset za * 1000000 = wall_micros b - tz_utcoffset zb * 1000000
      | _ \<Rightarrow> False)"

text \<open>The number a \<open>bool\<close>, \<open>int\<close> or \<open>float\<close> compares as; \<open>None\<close> for anything else.\<close>

fun numeric_value :: "pyval \<Rightarrow> pyfloat option" where
  "numeric_value (PBool b) = Some (Finite (if b then 1 else 0))"
| "numeric_value (PInt i) = Some (Finite (of_int i))"
| "numeric_value (PFloat f) = Some f"
| "numeric_value _ = None"

fun pyfloat_eq :: "pyfloat \<Rightarrow> pyfloat \<Rightarrow> bool" where
  "pyfloat_eq (Finite p) (Finite q) = (p = q)"
| "pyfloat_eq (Infinite s) (Infinite t) = (s = t)"
| "pyfloat_eq _ _ = False"

text \<open>
  Python's \<open>==\<close>. Numbers compare by value across \<open>bool\<close>, \<open>int\<close> and \<open>float\<close>; lists
  compare elementwise; mappings compare as sets of items, whatever their order.

  Two limits of comparing values. A \<open>pyval\<close> is a value and has no identity, while a
  Python list or dict compares two elements by identity before it compares them by
  \<open>==\<close>: the two agree except on an element that does not equal itself, which is a
  NaN, so a list holding a NaN is unequal to every list here and equal to itself in
  Python when both sides are the same object. And the keys of a Python dict are
  distinct: \<open>py_eq\<close> is Python's \<open>==\<close> on association lists with distinct keys.
\<close>

fun py_eq :: "pyval \<Rightarrow> pyval \<Rightarrow> bool"
  and py_eq_list :: "pyval list \<Rightarrow> pyval list \<Rightarrow> bool"
  and py_eq_items :: "(string \<times> pyval) list \<Rightarrow> (string \<times> pyval) list \<Rightarrow> bool"
  and py_eq_item :: "string \<Rightarrow> pyval \<Rightarrow> (string \<times> pyval) list \<Rightarrow> bool"
where
  "py_eq PNone b = (b = PNone)"
| "py_eq (PBool x) b =
     (case numeric_value b of Some g \<Rightarrow> pyfloat_eq (Finite (if x then 1 else 0)) g | None \<Rightarrow> False)"
| "py_eq (PInt i) b =
     (case numeric_value b of Some g \<Rightarrow> pyfloat_eq (Finite (of_int i)) g | None \<Rightarrow> False)"
| "py_eq (PFloat f) b =
     (case numeric_value b of Some g \<Rightarrow> pyfloat_eq f g | None \<Rightarrow> False)"
| "py_eq (PStr s) b = (b = PStr s)"
| "py_eq (PList xs) b = (case b of PList ys \<Rightarrow> py_eq_list xs ys | _ \<Rightarrow> False)"
| "py_eq (PDict xs) b =
     (case b of
        PDict ys \<Rightarrow> length xs = length ys \<and> py_eq_items xs ys
      | PObj ys \<Rightarrow> length xs = length ys \<and> py_eq_items xs ys
      | _ \<Rightarrow> False)"
| "py_eq (PDate d) b = (b = PDate d)"
| "py_eq (PDatetime d) b = (case b of PDatetime e \<Rightarrow> datetime_eq d e | _ \<Rightarrow> False)"
| "py_eq (PObj xs) b =
     (case b of
        PDict ys \<Rightarrow> length xs = length ys \<and> py_eq_items xs ys
      | PObj ys \<Rightarrow> length xs = length ys \<and> py_eq_items xs ys
      | _ \<Rightarrow> False)"
| "py_eq_list [] ys = (ys = [])"
| "py_eq_list (x # xs) ys =
     (case ys of [] \<Rightarrow> False | y # ys' \<Rightarrow> py_eq x y \<and> py_eq_list xs ys')"
| "py_eq_items [] ys = True"
| "py_eq_items ((k, v) # xs) ys = (py_eq_item k v ys \<and> py_eq_items xs ys)"
| "py_eq_item k v [] = False"
| "py_eq_item k v ((k', v') # ys) = (if k = k' then py_eq v v' else py_eq_item k v ys)"

text \<open>The truth value of an object, as \<open>if fixed:\<close> and \<open>if parsed.tzinfo:\<close> take it.\<close>

fun truthy :: "pyval \<Rightarrow> bool" where
  "truthy PNone = False"
| "truthy (PBool b) = b"
| "truthy (PInt i) = (i \<noteq> 0)"
| "truthy (PFloat f) = (f \<noteq> Finite 0)"
| "truthy (PStr s) = (s \<noteq> [])"
| "truthy (PList xs) = (xs \<noteq> [])"
| "truthy (PDict xs) = (xs \<noteq> [])"
| "truthy (PDate d) = True"
| "truthy (PDatetime d) = True"
| "truthy (PObj xs) = (xs \<noteq> [])"

text \<open>\<open>value.name\<close> on an object: the property of that name.\<close>

definition getattr_obj :: "(string \<times> pyval) list \<Rightarrow> string \<Rightarrow> pyval result" where
  "getattr_obj props name =
     (case map_of props name of None \<Rightarrow> Inl AttributeError | Some v \<Rightarrow> Inr v)"

subsection \<open>Strings\<close>

text \<open>\<open>str.lower\<close> on code points below 256: A-Z and the Latin-1 capitals.\<close>

definition lower_char :: "char \<Rightarrow> char" where
  "lower_char c =
     (let n = of_char c :: nat
      in if (65 \<le> n \<and> n \<le> 90) \<or> (192 \<le> n \<and> n \<le> 222 \<and> n \<noteq> 215)
         then char_of (n + 32) else c)"

definition str_lower :: "string \<Rightarrow> string" where
  "str_lower s = map lower_char s"

text \<open>
  \<open>value.lower()\<close>: defined on \<open>str\<close>. No \<open>pyval\<close> is callable, so an object that holds
  a property named \<open>lower\<close> fails the call with \<open>TypeError\<close>; every other value has no
  such attribute.
\<close>

fun py_lower :: "pyval \<Rightarrow> pyval result" where
  "py_lower (PStr s) = Inr (PStr (str_lower s))"
| "py_lower (PObj props) =
     (case getattr_obj props ''lower'' of Inl e \<Rightarrow> Inl e | Inr f \<Rightarrow> Inl TypeError)"
| "py_lower _ = Inl AttributeError"

text \<open>\<open>x in xs\<close> on a list: some element equals \<open>x\<close>.\<close>

definition py_in :: "pyval \<Rightarrow> pyval list \<Rightarrow> bool" where
  "py_in x xs = list_ex (\<lambda>y. py_eq x y) xs"

subsection \<open>Conversion to text\<close>

definition digit_char :: "nat \<Rightarrow> char" where
  "digit_char d = char_of (48 + d)"

function show_nat :: "nat \<Rightarrow> string" where
  "show_nat n = (if n < 10 then [digit_char n] else show_nat (n div 10) @ [digit_char (n mod 10)])"
  by pat_completeness auto
termination
  by (relation "measure (\<lambda>n. n)") auto

definition show_int :: "int \<Rightarrow> string" where
  "show_int i = (if i < 0 then CHR ''-'' # show_nat (nat (- i)) else show_nat (nat i))"

text \<open>
  What the module calls but does not define, the interpreter and two libraries:
  \<^item> \<open>builtin_str\<close>: \<open>str(x)\<close> for a float, list, dict, date, datetime or object;
  \<^item> \<open>str_kwargs\<close>, \<open>bool_kwargs\<close>: the calls \<open>str(**d)\<close> and \<open>bool(**d)\<close>;
  \<^item> \<open>parser_parse\<close>: \<open>dateutil.parser.parse\<close>, which returns a datetime or raises.
\<close>

record pyenv =
  builtin_str :: "pyval \<Rightarrow> string"
  str_kwargs :: "(string \<times> pyval) list \<Rightarrow> exn + pyval"
  bool_kwargs :: "(string \<times> pyval) list \<Rightarrow> exn + pyval"
  parser_parse :: "pyval \<Rightarrow> exn + datetime"

text \<open>\<open>str(x)\<close>, also what \<open>"{0}".format(x)\<close> inserts.\<close>

definition py_str :: "pyenv \<Rightarrow> pyval \<Rightarrow> string" where
  "py_str E v =
     (case v of
        PStr s \<Rightarrow> s
      | PNone \<Rightarrow> ''None''
      | PBool b \<Rightarrow> (if b then ''True'' else ''False'')
      | PInt i \<Rightarrow> show_int i
      | _ \<Rightarrow> builtin_str E v)"

definition quoted :: "string \<Rightarrow> string" where
  "quoted s = CHR 0x27 # s @ [CHR 0x27]"

text \<open>
  \<open>value.startswith(prefix)\<close>: a method of \<open>str\<close> that takes a \<open>str\<close>. An object
  reads \<open>startswith\<close> as a property, which is not callable.
\<close>

fun py_startswith :: "pyval \<Rightarrow> pyval \<Rightarrow> exn + bool" where
  "py_startswith (PStr s) (PStr t) = Inr (prefix t s)"
| "py_startswith (PStr s) _ = Inl TypeError"
| "py_startswith (PObj props) _ =
     (case getattr_obj props ''startswith'' of Inl e \<Rightarrow> Inl e | Inr f \<Rightarrow> Inl TypeError)"
| "py_startswith _ _ = Inl AttributeError"

text \<open>
  \<open>iter(value)\<close> followed by the \<open>for\<close> loop: the elements of a list, the characters
  of a string, the keys of a mapping; \<open>TypeError\<close> for a value that is not iterable.
\<close>

fun py_iter :: "pyval \<Rightarrow> exn + pyval list" where
  "py_iter (PList xs) = Inr xs"
| "py_iter (PStr s) = Inr (map (\<lambda>c. PStr [c]) s)"
| "py_iter (PDict kvs) = Inr (map (\<lambda>kv. PStr (fst kv)) kvs)"
| "py_iter (PObj kvs) = Inr (map (\<lambda>kv. PStr (fst kv)) kvs)"
| "py_iter _ = Inl TypeError"

section \<open>Property\<close>

text \<open>
  A property object is its class and its instance attributes. \<open>__init__\<close> rebinds
  methods on the instance: \<open>p_validate\<close> says that \<open>self.validate\<close> is bound to
  \<open>_default_validate\<close>, \<open>p_clean\<close> and \<open>p_default\<close> hold the functions assigned to
  \<open>self.clean\<close> and \<open>self.default\<close>. A \<open>default\<close> function takes no argument and is
  given by what calling it returns, so \<open>lambda: fixed\<close> is \<open>Inr fixed\<close>. An attribute that
  was never assigned is \<open>None\<close> (or \<open>False\<close>); method lookup then falls back to the class.
\<close>

datatype kind =
    Property
  | ListProperty
  | StringProperty
  | TypeProperty
  | IDProperty
  | BooleanProperty
  | TimestampProperty
  | ReferenceProperty
  | SelectorProperty

datatype property =
  Prop (p_cls: kind)
       (p_required: pyval)
       (p_type: pyval)
       (p_fixed_value: "pyval option")
       (p_validate: bool)
       (p_clean: "(pyval \<Rightarrow> exn + pyval) option")
       (p_default: "(exn + pyval) option")
       (p_contained: "contained option")
       (p_required_prefix: "string option")
and contained =
    Str_type
  | Bool_type
  | Instance property
  | External "(pyval \<Rightarrow> exn + pyval) option"
             "pyval \<Rightarrow> exn + pyval"
             "(string \<times> pyval) list \<Rightarrow> exn + pyval"

text \<open>
  \<open>External validate call call_kw\<close> is an element type that is not a property of this
  module: its \<open>validate\<close> attribute if it has one, and what calling it with one
  positional argument and with keyword arguments returns.
\<close>

definition blank :: "kind \<Rightarrow> property" where
  "blank k = Prop k PNone PNone None False None None None None"

definition set_required :: "pyval \<Rightarrow> property \<Rightarrow> property" where
  "set_required x p =
     (case p of Prop k r t f v c d e q \<Rightarrow> Prop k x t f v c d e q)"

definition set_type :: "pyval \<Rightarrow> property \<Rightarrow> property" where
  "set_type x p =
     (case p of Prop k r t f v c d e q \<Rightarrow> Prop k r x f v c d e q)"

definition set_fixed_value :: "pyval \<Rightarrow> property \<Rightarrow> property" where
  "set_fixed_value x p =
     (case p of Prop k r t f v c d e q \<Rightarrow> Prop k r t (Some x) v c d e q)"

definition set_validate :: "property \<Rightarrow> property" where
  "set_validate p =
     (case p of Prop k r t f v c d e q \<Rightarrow> Prop k r t f True c d e q)"

definition set_clean :: "(pyval \<Rightarrow> exn + pyval) \<Rightarrow> property \<Rightarrow> property" where
  "set_clean x p =
     (case p of Prop k r t f v c d e q \<Rightarrow> Prop k r t f v (Some x) d e q)"

definition set_default :: "(exn + pyval) \<Rightarrow> property \<Rightarrow> property" where
  "set_default x p =
     (case p of Prop k r t f v c d e q \<Rightarrow> Prop k r t f v c (Some x) e q)"

definition set_contained :: "contained \<Rightarrow> property \<Rightarrow> property" where
  "set_contained x p =
     (case p of Prop k r t f v c d e q \<Rightarrow> Prop k r t f v c d (Some x) q)"

definition set_required_prefix :: "string \<Rightarrow> property \<Rightarrow> property" where
  "set_required_prefix x p =
     (case p of Prop k r t f v c d e q \<Rightarrow> Prop k r t f v c d e (Some x))"

text \<open>
  The keyword arguments of \<open>Property.__init__\<close>. \<open>clean\<close> and \<open>default\<close> are \<open>None\<close> or
  a function (the docstring: "lambda functions for \<open>clean\<close>, and \<open>default\<close>"), and a
  function is true in \<open>if clean:\<close>.
\<close>

record kwargs =
  kw_required :: pyval
  kw_fixed :: pyval
  kw_clean :: "(pyval \<Rightarrow> exn + pyval) option"
  kw_default :: "(exn + pyval) option"
  kw_type :: pyval

definition no_kwargs :: kwargs where
  "no_kwargs =
     \<lparr>kw_required = PBool False, kw_fixed = PNone, kw_clean = None, kw_default = None,
      kw_type = PNone\<rparr>"

text \<open>\<open>Property.__init__\<close>, statement by statement.\<close>

definition Property_init :: "property \<Rightarrow> kwargs \<Rightarrow> property" where
  "Property_init self kw =
     (let self = set_required (kw_required kw) self;
          self = set_type (kw_type kw) self;
          self = (if truthy (kw_fixed kw)
                  then set_default (Inr (kw_fixed kw))
                         (set_validate (set_fixed_value (kw_fixed kw) self))
                  else self);
          self = (case kw_clean kw of Some f \<Rightarrow> set_clean f self | None \<Rightarrow> self);
          self = (case kw_default kw of Some g \<Rightarrow> set_default g self | None \<Rightarrow> self)
      in self)"

text \<open>\<open>Property._default_validate\<close>.\<close>

definition default_validate :: "pyenv \<Rightarrow> property \<Rightarrow> pyval \<Rightarrow> exn + pyval" where
  "default_validate E self v =
     (case p_fixed_value self of
        None \<Rightarrow> Inl AttributeError
      | Some fixed \<Rightarrow>
          if \<not> py_eq v fixed
          then Inl (ValueError (''must equal '' @ quoted (py_str E fixed) @ ''.''))
          else Inr v)"

section \<open>StringProperty and BooleanProperty\<close>

definition StringProperty_clean :: "pyenv \<Rightarrow> pyval \<Rightarrow> exn + pyval" where
  "StringProperty_clean E v = Inr (PStr (py_str E v))"

definition trues :: "pyval list" where
  "trues = [PStr ''true'', PStr ''t'']"

definition falses :: "pyval list" where
  "falses = [PStr ''false'', PStr ''f'']"

text \<open>
  \<open>BooleanProperty.clean\<close>. The \<open>try\<close> block covers both membership tests; only an
  \<open>AttributeError\<close> from \<open>value.lower()\<close> reaches the numeric comparisons, and a string
  that is in neither list leaves the block and meets the final \<open>raise\<close>.
\<close>

definition BooleanProperty_clean :: "pyval \<Rightarrow> exn + pyval" where
  "BooleanProperty_clean v =
     (case v of
        PBool b \<Rightarrow> Inr v
      | _ \<Rightarrow>
         (case py_lower v of
            Inr l \<Rightarrow>
              if py_in l trues then Inr (PBool True)
              else if py_in l falses then Inr (PBool False)
              else Inl (ValueError ''not a coercible boolean value.'')
          | Inl AttributeError \<Rightarrow>
              if py_eq v (PInt 1) then Inr (PBool True)
              else if py_eq v (PInt 0) then Inr (PBool False)
              else Inl (ValueError ''not a coercible boolean value.'')
          | Inl e \<Rightarrow> Inl e))"

text \<open>
  \<open>self.clean(value)\<close>: the function assigned by \<open>__init__\<close> if there is one, else the
  method of the class; \<open>Property.clean\<close> raises \<open>NotImplementedError\<close>.
\<close>

definition clean :: "pyenv \<Rightarrow> property \<Rightarrow> pyval \<Rightarrow> exn + pyval" where
  "clean E self v =
     (case p_clean self of
        Some f \<Rightarrow> f v
      | None \<Rightarrow>
          (case p_cls self of
             StringProperty \<Rightarrow> StringProperty_clean E v
           | BooleanProperty \<Rightarrow> BooleanProperty_clean v
           | _ \<Rightarrow> Inl NotImplementedError))"

text \<open>\<open>Property.validate\<close>, \<open>StringProperty.validate\<close>, \<open>BooleanProperty.validate\<close>.\<close>

definition Property_validate :: "pyenv \<Rightarrow> property \<Rightarrow> pyval \<Rightarrow> exn + pyval" where
  "Property_validate E self v =
     (case clean E self v of
        Inl NotImplementedError \<Rightarrow> Inr v
      | r \<Rightarrow> r)"

definition StringProperty_validate :: "pyenv \<Rightarrow> property \<Rightarrow> pyval \<Rightarrow> exn + pyval" where
  "StringProperty_validate E self v = clean E self v"

definition BooleanProperty_validate :: "pyenv \<Rightarrow> property \<Rightarrow> pyval \<Rightarrow> exn + pyval" where
  "BooleanProperty_validate E self v =
     (case clean E self v of
        Inl (ValueError m) \<Rightarrow> Inl (ValueError ''must be a boolean value.'')
      | r \<Rightarrow> r)"

section \<open>TimestampProperty\<close>

definition pytz_utc :: tzinfo where
  "pytz_utc = Tz ''UTC'' 0"

text \<open>
  \<open>pytz.timezone('US/Eastern')\<close>, passed to \<open>tzinfo=\<close> as it is: without
  \<open>localize\<close> the zone object carries its first entry, local mean time, 4 h 56 min
  behind UTC.
\<close>

definition pytz_timezone_US_Eastern :: tzinfo where
  "pytz_timezone_US_Eastern = Tz ''US/Eastern'' (- 17760)"

text \<open>\<open>dt.time()\<close> is midnight.\<close>

definition dt_time_midnight :: int where
  "dt_time_midnight = 0"

definition datetime_combine :: "int \<Rightarrow> int \<Rightarrow> tzinfo \<Rightarrow> datetime" where
  "datetime_combine d t z = \<lparr>dt_date = d, dt_time = t, dt_tzinfo = Some z\<rparr>"

text \<open>
  \<open>d.astimezone(tz)\<close> for an aware \<open>d\<close> in zone \<open>z\<close>: the same instant on the wall clock
  of \<open>tz\<close>. datetime arithmetic raises \<open>OverflowError\<close> outside the years 1 to 9999
  (ordinals 1 to 3652059).
\<close>

definition astimezone :: "datetime \<Rightarrow> tzinfo \<Rightarrow> tzinfo \<Rightarrow> exn + datetime" where
  "astimezone d z tz =
     (let utc = wall_micros d - tz_utcoffset z * 1000000;
          local = utc + tz_utcoffset tz * 1000000
      in if utc div 86400000000 < 1 \<or> 3652059 < utc div 86400000000
            \<or> local div 86400000000 < 1 \<or> 3652059 < local div 86400000000
         then Inl OverflowError
         else Inr \<lparr>dt_date = local div 86400000000, dt_time = local mod 86400000000,
                   dt_tzinfo = Some tz\<rparr>)"

text \<open>\<open>tz.localize(d)\<close> of pytz: attaches the zone to a naive value.\<close>

definition localize :: "tzinfo \<Rightarrow> datetime \<Rightarrow> exn + datetime" where
  "localize tz d =
     (case dt_tzinfo d of
        Some z \<Rightarrow> Inl (ValueError ''Not naive datetime (tzinfo is already set)'')
      | None \<Rightarrow> Inr (d\<lparr>dt_tzinfo := Some tz\<rparr>))"

text \<open>
  \<open>TimestampProperty.validate\<close>. \<open>isinstance(value, dt.date)\<close> holds for a date and for
  a datetime; only the datetime has \<open>hour\<close>. A \<open>tzinfo\<close> object is true, so
  \<open>if parsed.tzinfo:\<close> asks whether there is one.
\<close>

definition TimestampProperty_validate :: "pyenv \<Rightarrow> pyval \<Rightarrow> exn + pyval" where
  "TimestampProperty_validate E v =
     (case v of
        PDatetime d \<Rightarrow> Inr v
      | PDate d \<Rightarrow>
          Inr (PDatetime (datetime_combine d dt_time_midnight pytz_timezone_US_Eastern))
      | _ \<Rightarrow>
         (case parser_parse E v of
            Inl TypeError \<Rightarrow>
              Inl (ValueError (''must be a datetime object, date object, or '' @
                               ''timestamp string in a recognizable format.''))
          | Inl e \<Rightarrow> Inl e
          | Inr parsed \<Rightarrow>
             (case dt_tzinfo parsed of
                Some z \<Rightarrow> map_sum id PDatetime (astimezone parsed z pytz_utc)
              | None \<Rightarrow> map_sum id PDatetime (localize pytz_utc parsed))))"

section \<open>Regular expressions\<close>

text \<open>
  The two patterns of the module are compiled by \<open>re.compile\<close>; both have the form
  \<open>^R$\<close> and use character classes, concatenation, alternation, \<open>*\<close>, \<open>+\<close> and
  bounded repetition \<open>{m,n}\<close>. \<open>regex\<close> is that fragment, a character class being a
  list of inclusive ranges.
\<close>

datatype regex =
    Zero
  | One
  | Atom "(char \<times> char) list"
  | Times regex regex
  | Plus regex regex
  | Star regex
  | Repeat regex nat nat

definition in_ranges :: "char \<Rightarrow> (char \<times> char) list \<Rightarrow> bool" where
  "in_ranges c rs =
     list_ex (\<lambda>r. (of_char (fst r) :: nat) \<le> of_char c \<and> (of_char c :: nat) \<le> of_char (snd r)) rs"

fun nullable :: "regex \<Rightarrow> bool" where
  "nullable Zero = False"
| "nullable One = True"
| "nullable (Atom rs) = False"
| "nullable (Times r s) = (nullable r \<and> nullable s)"
| "nullable (Plus r s) = (nullable r \<or> nullable s)"
| "nullable (Star r) = True"
| "nullable (Repeat r m n) = (m \<le> n \<and> (m = 0 \<or> nullable r))"

text \<open>The expression for what may follow the character \<open>c\<close>.\<close>

fun deriv :: "char \<Rightarrow> regex \<Rightarrow> regex" where
  "deriv c Zero = Zero"
| "deriv c One = Zero"
| "deriv c (Atom rs) = (if in_ranges c rs then One else Zero)"
| "deriv c (Times r s) =
     (if nullable r then Plus (Times (deriv c r) s) (deriv c s) else Times (deriv c r) s)"
| "deriv c (Plus r s) = Plus (deriv c r) (deriv c s)"
| "deriv c (Star r) = Times (deriv c r) (Star r)"
| "deriv c (Repeat r m n) =
     (if n = 0 then Zero else Times (deriv c r) (Repeat r (m - 1) (n - 1)))"

text \<open>\<open>matches r s\<close>: the whole of \<open>s\<close> is a word of \<open>r\<close>.\<close>

fun matches :: "regex \<Rightarrow> string \<Rightarrow> bool" where
  "matches r [] = nullable r"
| "matches r (c # cs) = matches (deriv c r) cs"

text \<open>
  \<open>re.compile("^R$").match(s)\<close>: \<open>^\<close> is the start of \<open>s\<close>, and \<open>$\<close> is its end or the
  position before a newline that ends it.
\<close>

definition re_match :: "regex \<Rightarrow> string \<Rightarrow> bool" where
  "re_match r s =
     (matches r s \<or> (s \<noteq> [] \<and> last s = CHR 0x0A \<and> matches r (butlast s)))"

definition lit :: "char \<Rightarrow> regex" where
  "lit c = Atom [(c, c)]"

definition one_or_more :: "regex \<Rightarrow> regex" where
  "one_or_more r = Times r (Star r)"

definition seq :: "regex list \<Rightarrow> regex" where
  "seq rs = foldr Times rs One"

text \<open>\<open>[a-z]\<close>, \<open>[a-z-]\<close>, \<open>[0-9a-fA-F]\<close>, \<open>[a-z0-9_-]\<close> and \<open>\d\<close> (below 256, the ASCII digits).\<close>

definition cls_lower :: regex where
  "cls_lower = Atom [(CHR ''a'', CHR ''z'')]"

definition cls_lower_hyphen :: regex where
  "cls_lower_hyphen = Atom [(CHR ''a'', CHR ''z''), (CHR ''-'', CHR ''-'')]"

definition cls_hex :: regex where
  "cls_hex = Atom [(CHR ''0'', CHR ''9''), (CHR ''a'', CHR ''f''), (CHR ''A'', CHR ''F'')]"

definition cls_token :: regex where
  "cls_token =
     Atom [(CHR ''a'', CHR ''z''), (CHR ''0'', CHR ''9''), (CHR ''_'', CHR ''_''),
           (CHR ''-'', CHR ''-'')]"

text \<open>
  \<open>\d\<close> in a pattern that is a \<open>str\<close>, compiled without \<open>re.ASCII\<close>, matches every
  Unicode decimal digit. The only ones below code point 256, where the strings of this
  development live, are \<open>0\<close> to \<open>9\<close>; the decimal digits of other scripts, such as
  U+0661, lie outside.
\<close>

definition cls_digit :: regex where
  "cls_digit = Atom [(CHR ''0'', CHR ''9'')]"

text \<open>
  \<open>REF_REGEX\<close>:
  \<^verbatim>\<open>^[a-z][a-z-]+[a-z]--[0-9a-fA-F]{8}-[0-9a-fA-F]{4}-[0-9a-fA-F]{4}-[0-9a-fA-F]{4}-[0-9a-fA-F]{12}$\<close>
\<close>

definition REF_REGEX :: regex where
  "REF_REGEX =
     seq [cls_lower, one_or_more cls_lower_hyphen, cls_lower, lit CHR ''-'', lit CHR ''-'',
          Repeat cls_hex 8 8, lit CHR ''-'',
          Repeat cls_hex 4 4, lit CHR ''-'',
          Repeat cls_hex 4 4, lit CHR ''-'',
          Repeat cls_hex 4 4, lit CHR ''-'',
          Repeat cls_hex 12 12]"

text \<open>
  \<open>SELECTOR_REGEX\<close>:
  \<^verbatim>\<open>^[a-z0-9_-]{3,250}(\.(\[\d+\]|[a-z0-9_-]{1,250}))*$\<close>
\<close>

definition SELECTOR_REGEX :: regex where
  "SELECTOR_REGEX =
     Times (Repeat cls_token 3 250)
       (Star (Times (lit CHR ''.'')
          (Plus (seq [lit CHR ''['', one_or_more cls_digit, lit CHR '']''])
                (Repeat cls_token 1 250))))"

section \<open>SelectorProperty and ReferenceProperty\<close>

text \<open>A compiled pattern matches a \<open>str\<close>; anything else is a \<open>TypeError\<close>.\<close>

definition SelectorProperty_validate :: "pyval \<Rightarrow> exn + pyval" where
  "SelectorProperty_validate v =
     (case v of
        PStr s \<Rightarrow>
          if \<not> re_match SELECTOR_REGEX s
          then Inl (ValueError ''values must adhere to selector syntax'')
          else Inr v
      | _ \<Rightarrow> Inl TypeError)"

definition ReferenceProperty_validate :: "pyenv \<Rightarrow> property \<Rightarrow> pyval \<Rightarrow> exn + pyval" where
  "ReferenceProperty_validate E self v =
     (case (case v of PObj props \<Rightarrow> getattr_obj props ''id'' | _ \<Rightarrow> Inr v) of
        Inl e \<Rightarrow> Inl e
      | Inr v \<Rightarrow>
         (case (if truthy (p_type self) then py_startswith v (p_type self) else Inr True) of
            Inl e \<Rightarrow> Inl e
          | Inr False \<Rightarrow>
              Inl (ValueError (''must start with '' @ quoted (py_str E (p_type self)) @ ''.''))
          | Inr True \<Rightarrow>
             (case v of
                PStr s \<Rightarrow>
                  if \<not> re_match REF_REGEX s
                  then Inl (ValueError ''must match <object-type>--<guid>.'')
                  else Inr v
              | _ \<Rightarrow> Inl TypeError)))"

section \<open>UUIDs\<close>

subsection \<open>String methods\<close>

text \<open>\<open>s.replace(old, '')\<close> for a non-empty \<open>old\<close>: the occurrences are deleted from the left.\<close>

function str_remove :: "string \<Rightarrow> string \<Rightarrow> string" where
  "str_remove old [] = []"
| "str_remove old (c # cs) =
     (if old \<noteq> [] \<and> prefix old (c # cs)
      then str_remove old (drop (length old) (c # cs))
      else c # str_remove old cs)"
  by pat_completeness auto
termination
  by (relation "measure (\<lambda>(old, s). length s)") (auto simp: Suc_le_eq)

text \<open>\<open>s.strip(chars)\<close>.\<close>

definition str_strip :: "string \<Rightarrow> string \<Rightarrow> string" where
  "str_strip chars s =
     rev (dropWhile (\<lambda>c. c \<in> set chars) (rev (dropWhile (\<lambda>c. c \<in> set chars) s)))"

text \<open>
  \<open>s.split(sep, 1)\<close> for a non-empty \<open>sep\<close>: cut at the first occurrence, or the whole
  string alone when there is none.
\<close>

fun partition_at :: "string \<Rightarrow> string \<Rightarrow> (string \<times> string) option" where
  "partition_at sep [] = None"
| "partition_at sep (c # cs) =
     (if prefix sep (c # cs) then Some ([], drop (length sep) (c # cs))
      else map_option (\<lambda>ab. (c # fst ab, snd ab)) (partition_at sep cs))"

definition str_split1 :: "string \<Rightarrow> string \<Rightarrow> string list" where
  "str_split1 sep s = (case partition_at sep s of None \<Rightarrow> [s] | Some ab \<Rightarrow> [fst ab, snd ab])"

definition py_index :: "'a list \<Rightarrow> nat \<Rightarrow> exn + 'a" where
  "py_index xs i = (if i < length xs then Inr (xs ! i) else Inl IndexError)"

subsection \<open>\<open>int(s, 16)\<close>\<close>

text \<open>
  The characters \<open>int\<close> skips at both ends of its argument: the whitespace of ASCII,
  which is the code points 9 to 13 and 32, and the two spaces U+0085 and U+00A0, which
  \<open>int\<close> replaces by a blank first. The separators 28 to 31 are whitespace for
  \<open>str.isspace\<close> and not for \<open>int\<close>.
\<close>

definition is_space :: "char \<Rightarrow> bool" where
  "is_space c = ((of_char c :: nat) \<in> {9, 10, 11, 12, 13, 32, 133, 160})"

definition hex_value :: "char \<Rightarrow> int option" where
  "hex_value c =
     (let n = of_char c :: nat
      in if 48 \<le> n \<and> n \<le> 57 then Some (int n - 48)
         else if 97 \<le> n \<and> n \<le> 102 then Some (int n - 87)
         else if 65 \<le> n \<and> n \<le> 70 then Some (int n - 55)
         else None)"

text \<open>
  The digits of an integer literal. An underscore may stand between two digits, or
  between the base prefix and the first digit: \<open>us_ok\<close> says that an underscore may come
  next, \<open>end_ok\<close> that the literal may end here.
\<close>

fun int_digits16 :: "bool \<Rightarrow> bool \<Rightarrow> int \<Rightarrow> string \<Rightarrow> int option" where
  "int_digits16 us_ok end_ok acc [] = (if end_ok then Some acc else None)"
| "int_digits16 us_ok end_ok acc (c # cs) =
     (if c = CHR ''_'' then (if us_ok then int_digits16 False False acc cs else None)
      else (case hex_value c of
              None \<Rightarrow> None
            | Some d \<Rightarrow> int_digits16 True True (acc * 16 + d) cs))"

text \<open>
  \<open>int(s, 16)\<close>: surrounding whitespace, a sign and the prefix \<open>0x\<close> are optional.
\<close>

definition int_base16 :: "string \<Rightarrow> exn + int" where
  "int_base16 s =
     (let s1 = rev (dropWhile is_space (rev (dropWhile is_space s)));
          neg = (s1 \<noteq> [] \<and> hd s1 = CHR ''-'');
          s2 = (if s1 \<noteq> [] \<and> (hd s1 = CHR ''-'' \<or> hd s1 = CHR ''+'') then tl s1 else s1);
          pre = (prefix ''0x'' s2 \<or> prefix ''0X'' s2);
          s3 = (if pre then drop 2 s2 else s2)
      in case int_digits16 pre False 0 s3 of
           None \<Rightarrow> Inl (ValueError ''invalid literal for int() with base 16'')
         | Some n \<Rightarrow> Inr (if neg then - n else n))"

subsection \<open>\<open>uuid.UUID\<close> and \<open>uuid.uuid4\<close>\<close>

text \<open>
  \<open>uuid.UUID.__init__\<close>, the part run when \<open>version\<close> is given: the variant and version
  fields of the 128-bit number are overwritten.
\<close>

definition set_version :: "int \<Rightarrow> int \<Rightarrow> int" where
  "set_version i version =
     (let i = i AND NOT (push_bit 48 0xc000);
          i = i OR push_bit 48 0x8000;
          i = i AND NOT (push_bit 64 0xf000);
          i = i OR push_bit 76 version
      in i)"

text \<open>
  \<open>uuid.UUID(hex, version=version)\<close>, returning the field \<open>int\<close> of the new object. The
  argument \<open>version\<close> does not check the version the string carries: it replaces it.
\<close>

definition uuid_UUID :: "string \<Rightarrow> int \<Rightarrow> exn + int" where
  "uuid_UUID hex version =
     (let hex = str_remove ''uuid:'' (str_remove ''urn:'' hex);
          hex = str_remove ''-'' (str_strip ''{}'' hex)
      in if length hex \<noteq> 32 then Inl (ValueError ''badly formed hexadecimal UUID string'')
         else (case int_base16 hex of
                 Inl e \<Rightarrow> Inl e
               | Inr i \<Rightarrow>
                   if \<not> (0 \<le> i \<and> i < 2 ^ 128)
                   then Inl (ValueError ''int is out of range (need a 128-bit value)'')
                   else if \<not> (1 \<le> version \<and> version \<le> 5)
                   then Inl (ValueError ''illegal version number'')
                   else Inr (set_version i version)))"

text \<open>The digit table of \<open>%x\<close>, read at a value below 16.\<close>

definition hex_digit :: "nat \<Rightarrow> char" where
  "hex_digit d = ''0123456789abcdef'' ! d"

text \<open>\<open>'%032x' % i\<close> for \<open>0 \<le> i < 2 ** 128\<close>, the range of \<open>UUID.int\<close>: 32 digits.\<close>

fun hex_digits :: "nat \<Rightarrow> int \<Rightarrow> string" where
  "hex_digits 0 i = []"
| "hex_digits (Suc k) i = hex_digits k (i div 16) @ [hex_digit (nat (i mod 16))]"

text \<open>\<open>str(u)\<close> for a UUID with the field \<open>int\<close>: the digits in groups of 8-4-4-4-12.\<close>

definition UUID_str :: "int \<Rightarrow> string" where
  "UUID_str i =
     (let hex = hex_digits 32 i
      in take 8 hex @ ''-'' @ take 4 (drop 8 hex) @ ''-'' @ take 4 (drop 12 hex) @ ''-'' @
         take 4 (drop 16 hex) @ ''-'' @ drop 20 hex)"

text \<open>
  \<open>uuid.uuid4()\<close> is \<open>UUID(bytes=os.urandom(16), version=4)\<close>; \<open>r\<close> is the 16 random
  bytes, read big-endian.
\<close>

definition uuid_uuid4 :: "128 word \<Rightarrow> int" where
  "uuid_uuid4 r = set_version (uint r) 4"

section \<open>IDProperty\<close>

text \<open>The \<open>try\<close> block of \<open>IDProperty.validate\<close>.\<close>

definition uuid_after_prefix :: "string \<Rightarrow> exn + int" where
  "uuid_after_prefix s =
     (case py_index (str_split1 ''--'' s) 1 of
        Inl e \<Rightarrow> Inl e
      | Inr rest \<Rightarrow> uuid_UUID rest 4)"

definition IDProperty_validate :: "property \<Rightarrow> pyval \<Rightarrow> exn + pyval" where
  "IDProperty_validate self v =
     (case p_required_prefix self of
        None \<Rightarrow> Inl AttributeError
      | Some required_prefix \<Rightarrow>
         (case py_startswith v (PStr required_prefix) of
            Inl e \<Rightarrow> Inl e
          | Inr False \<Rightarrow> Inl (ValueError (''must start with '' @ quoted required_prefix @ ''.''))
          | Inr True \<Rightarrow>
             (case (case v of PStr s \<Rightarrow> uuid_after_prefix s | _ \<Rightarrow> Inl AttributeError) of
                Inl e \<Rightarrow> Inl (ValueError ''must have a valid version 4 UUID after the prefix.'')
              | Inr u \<Rightarrow> Inr v)))"

definition IDProperty_default :: "property \<Rightarrow> 128 word \<Rightarrow> exn + pyval" where
  "IDProperty_default self r =
     (case p_required_prefix self of
        None \<Rightarrow> Inl AttributeError
      | Some required_prefix \<Rightarrow> Inr (PStr (required_prefix @ UUID_str (uuid_uuid4 r))))"

section \<open>ListProperty\<close>

text \<open>
  \<open>Property.__call__(self, value=None)\<close> returns \<open>value\<close> when it is not \<open>None\<close> and falls
  off the end otherwise, which returns \<open>None\<close>. With keyword arguments, \<open>value\<close> is the
  only name it takes.
\<close>

definition Property_call :: "pyval \<Rightarrow> exn + pyval" where
  "Property_call v = (if v \<noteq> PNone then Inr v else Inr PNone)"

definition Property_call_kw :: "(string \<times> pyval) list \<Rightarrow> exn + pyval" where
  "Property_call_kw d =
     (if list_ex (\<lambda>kv. fst kv \<noteq> ''value'') d then Inl TypeError
      else Property_call (case map_of d ''value'' of None \<Rightarrow> PNone | Some v \<Rightarrow> v))"

text \<open>
  \<open>self.contained(valid)\<close> and \<open>self.contained(**valid)\<close>: \<open>str\<close>, \<open>bool\<close>, a property
  object, or an element type from outside the module.
\<close>

definition contained_call :: "pyenv \<Rightarrow> contained option \<Rightarrow> pyval \<Rightarrow> exn + pyval" where
  "contained_call E c v =
     (case c of
        None \<Rightarrow> Inl AttributeError
      | Some Str_type \<Rightarrow> Inr (PStr (py_str E v))
      | Some Bool_type \<Rightarrow> Inr (PBool (truthy v))
      | Some (Instance q) \<Rightarrow> Property_call v
      | Some (External vf call call_kw) \<Rightarrow> call v)"

definition contained_call_kw ::
  "pyenv \<Rightarrow> contained option \<Rightarrow> (string \<times> pyval) list \<Rightarrow> exn + pyval" where
  "contained_call_kw E c d =
     (case c of
        None \<Rightarrow> Inl AttributeError
      | Some Str_type \<Rightarrow> str_kwargs E d
      | Some Bool_type \<Rightarrow> bool_kwargs E d
      | Some (Instance q) \<Rightarrow> Property_call_kw d
      | Some (External vf call call_kw) \<Rightarrow> call_kw d)"

text \<open>
  The \<open>for\<close> loop of \<open>ListProperty.validate\<close>, \<open>result\<close> being the list built so far.
  \<open>contained_validate\<close> is \<open>self.contained.validate\<close>: an \<open>AttributeError\<close> from it keeps
  the item as it is, every other exception leaves the loop.
\<close>

fun ListProperty_loop ::
  "(pyval \<Rightarrow> exn + pyval) \<Rightarrow> (pyval \<Rightarrow> exn + pyval) \<Rightarrow>
   ((string \<times> pyval) list \<Rightarrow> exn + pyval) \<Rightarrow> pyval list \<Rightarrow> pyval list \<Rightarrow> exn + pyval list"
where
  "ListProperty_loop contained_validate call call_kw [] result = Inr result"
| "ListProperty_loop contained_validate call call_kw (item # items) result =
     (case (case contained_validate item of
              Inl AttributeError \<Rightarrow> Inr item
            | r \<Rightarrow> r) of
        Inl e \<Rightarrow> Inl e
      | Inr valid \<Rightarrow>
         (case (case valid of PDict d \<Rightarrow> call_kw d | _ \<Rightarrow> call valid) of
            Inl e \<Rightarrow> Inl e
          | Inr x \<Rightarrow> ListProperty_loop contained_validate call call_kw items (result @ [x])))"

definition ListProperty_validate ::
  "(pyval \<Rightarrow> exn + pyval) \<Rightarrow> (pyval \<Rightarrow> exn + pyval) \<Rightarrow>
   ((string \<times> pyval) list \<Rightarrow> exn + pyval) \<Rightarrow> pyval \<Rightarrow> exn + pyval" where
  "ListProperty_validate contained_validate call call_kw v =
     (case py_iter v of
        Inl e \<Rightarrow> Inl (ValueError ''must be an iterable.'')
      | Inr items \<Rightarrow>
         (case ListProperty_loop contained_validate call call_kw items [] of
            Inl e \<Rightarrow> Inl e
          | Inr result \<Rightarrow>
              if length result < 1 then Inl (ValueError ''must not be empty.'')
              else Inr (PList result)))"

section \<open>Method dispatch\<close>

text \<open>
  \<open>self.validate(value)\<close>: the instance attribute bound by \<open>__init__\<close> if there is one,
  else the method of the class. \<open>TypeProperty\<close> defines no \<open>validate\<close> and inherits
  \<open>Property.validate\<close>. In a \<open>ListProperty\<close>, \<open>self.contained.validate\<close> is this
  function again when the element type is a property object, and a missing attribute on
  \<open>str\<close>, \<open>bool\<close> or an element type without \<open>validate\<close>.
\<close>

function validate :: "pyenv \<Rightarrow> property \<Rightarrow> pyval \<Rightarrow> exn + pyval" where
  "validate E self v =
     (if p_validate self then default_validate E self v
      else (case p_cls self of
              Property \<Rightarrow> Property_validate E self v
            | TypeProperty \<Rightarrow> Property_validate E self v
            | StringProperty \<Rightarrow> StringProperty_validate E self v
            | BooleanProperty \<Rightarrow> BooleanProperty_validate E self v
            | TimestampProperty \<Rightarrow> TimestampProperty_validate E v
            | IDProperty \<Rightarrow> IDProperty_validate self v
            | ReferenceProperty \<Rightarrow> ReferenceProperty_validate E self v
            | SelectorProperty \<Rightarrow> SelectorProperty_validate v
            | ListProperty \<Rightarrow>
                ListProperty_validate
                  (\<lambda>item. case p_contained self of
                             Some (Instance q) \<Rightarrow> validate E q item
                           | Some (External (Some vf) call call_kw) \<Rightarrow> vf item
                           | _ \<Rightarrow> Inl AttributeError)
                  (contained_call E (p_contained self))
                  (contained_call_kw E (p_contained self)) v))"
  by pat_completeness auto
termination
proof (relation "measure (\<lambda>(E, self, v). size self)")
  show "wf (measure (\<lambda>(E, self, v). size self))"
    by simp
next
  fix E :: pyenv and self :: property and v item :: pyval and c :: contained and q :: property
  assume "p_contained self = Some c" and "c = Instance q"
  then have "size q < size self"
    by (cases self) simp
  then show "((E, q, item), (E, self, v)) \<in> measure (\<lambda>(E, self, v). size self)"
    by simp
qed

text \<open>
  \<open>self.default()\<close>: the function assigned by \<open>__init__\<close>, else \<open>IDProperty.default\<close>,
  the only one a class defines. \<open>r\<close> is the randomness \<open>uuid4\<close> draws.
\<close>

definition call_default :: "property \<Rightarrow> 128 word \<Rightarrow> exn + pyval" where
  "call_default self r =
     (case p_default self of
        Some g \<Rightarrow> g
      | None \<Rightarrow>
          (case p_cls self of
             IDProperty \<Rightarrow> IDProperty_default self r
           | _ \<Rightarrow> Inl AttributeError))"

section \<open>Constructors\<close>

text \<open>
  \<open>Property\<close>, \<open>BooleanProperty\<close> and \<open>TimestampProperty\<close> use \<open>Property.__init__\<close> as it
  is; \<open>StringProperty.__init__\<close> adds \<open>string_type\<close>, which is \<open>str\<close>, and passes its
  keyword arguments on.
\<close>

definition new_Property :: "kwargs \<Rightarrow> property" where
  "new_Property kw = Property_init (blank Property) kw"

definition new_StringProperty :: "kwargs \<Rightarrow> property" where
  "new_StringProperty kw = Property_init (blank StringProperty) kw"

definition new_BooleanProperty :: "kwargs \<Rightarrow> property" where
  "new_BooleanProperty kw = Property_init (blank BooleanProperty) kw"

definition new_TimestampProperty :: "kwargs \<Rightarrow> property" where
  "new_TimestampProperty kw = Property_init (blank TimestampProperty) kw"

definition new_TypeProperty :: "pyval \<Rightarrow> property" where
  "new_TypeProperty type = Property_init (blank TypeProperty) (no_kwargs\<lparr>kw_fixed := type\<rparr>)"

text \<open>\<open>type + "--"\<close> concatenates two strings and is a \<open>TypeError\<close> for any other \<open>type\<close>.\<close>

definition new_IDProperty :: "pyval \<Rightarrow> exn + property" where
  "new_IDProperty type =
     (case type of
        PStr t \<Rightarrow> Inr (Property_init (set_required_prefix (t @ ''--'') (blank IDProperty)) no_kwargs)
      | _ \<Rightarrow> Inl TypeError)"

definition new_ReferenceProperty :: "pyval \<Rightarrow> pyval \<Rightarrow> property" where
  "new_ReferenceProperty required type =
     Property_init (set_type type (blank ReferenceProperty))
       (no_kwargs\<lparr>kw_required := required, kw_type := type\<rparr>)"

definition new_SelectorProperty :: "pyval \<Rightarrow> property" where
  "new_SelectorProperty type = Property_init (blank SelectorProperty) no_kwargs"

text \<open>
  \<open>contained()\<close>, a class called without arguments: the three classes whose \<open>__init__\<close>
  has a required argument raise \<open>TypeError\<close>.
\<close>

definition instantiate :: "kind \<Rightarrow> exn + property" where
  "instantiate k =
     (case k of
        Property \<Rightarrow> Inr (new_Property no_kwargs)
      | StringProperty \<Rightarrow> Inr (new_StringProperty no_kwargs)
      | BooleanProperty \<Rightarrow> Inr (new_BooleanProperty no_kwargs)
      | TimestampProperty \<Rightarrow> Inr (new_TimestampProperty no_kwargs)
      | ReferenceProperty \<Rightarrow> Inr (new_ReferenceProperty (PBool False) PNone)
      | SelectorProperty \<Rightarrow> Inr (new_SelectorProperty PNone)
      | _ \<Rightarrow> Inl TypeError)"

text \<open>
  The argument \<open>contained\<close> of \<open>ListProperty.__init__\<close>: a class of this module, or any
  other object, taken as it is.
\<close>

datatype contained_arg = Class kind | Object contained

definition new_ListProperty :: "contained_arg \<Rightarrow> kwargs \<Rightarrow> exn + property" where
  "new_ListProperty arg kw =
     (case (case arg of
              Class StringProperty \<Rightarrow> Inr Str_type
            | Class BooleanProperty \<Rightarrow> Inr Bool_type
            | Class k \<Rightarrow> map_sum id Instance (instantiate k)
            | Object c \<Rightarrow> Inr c) of
        Inl e \<Rightarrow> Inl e
      | Inr c \<Rightarrow> Inr (Property_init (set_contained c (blank ListProperty)) kw))"

text \<open>
  \<open>str(**d)\<close> as the interpreter \<open>E\<close> answers it when its \<open>str(x)\<close> is \<open>py_str E\<close>.
  The keywords of \<open>str\<close> are \<open>object\<close>, \<open>encoding\<close> and \<open>errors\<close>, the last two
  strings. Without \<open>object\<close> the result is the empty string; \<open>str(object=x)\<close> is
  \<open>str(x)\<close>; with \<open>encoding\<close> or \<open>errors\<close> the object is decoded, which asks for
  bytes, and no \<open>pyval\<close> is bytes.
\<close>

definition py_str_kwargs :: "pyenv \<Rightarrow> (string \<times> pyval) list \<Rightarrow> exn + pyval" where
  "py_str_kwargs E d =
     (let is_str = (\<lambda>k. case map_of d k of None \<Rightarrow> True | Some (PStr s) \<Rightarrow> True | _ \<Rightarrow> False)
      in if list_ex (\<lambda>kv. fst kv \<notin> {''object'', ''encoding'', ''errors''}) d then Inl TypeError
         else if \<not> is_str ''encoding'' \<or> \<not> is_str ''errors'' then Inl TypeError
         else (case map_of d ''object'' of
                 None \<Rightarrow> Inr (PStr [])
               | Some x \<Rightarrow>
                   if map_of d ''encoding'' = None \<and> map_of d ''errors'' = None
                   then Inr (PStr (py_str E x))
                   else Inl TypeError))"

text \<open>
  An interpreter to run examples in: \<open>str\<close> of a value that is not modelled prints a
  placeholder, \<open>bool\<close> takes no keyword arguments (Python 3.7 and later), and the
  timestamp parser reads the one string \<open>2017-01-01T12:00:00+01:00\<close> and the one string
  \<open>2017-01-01T12:00:00\<close> (ordinal 736330), failing with \<open>ValueError\<close> on any other
  string and with \<open>TypeError\<close> on a value that is not a string. \<open>example_base\<close> is
  that interpreter before \<open>str(**d)\<close> is given; \<open>example_env\<close> answers \<open>str(**d)\<close> as
  above, from its own \<open>str(x)\<close>.
\<close>

definition example_parse :: "pyval \<Rightarrow> exn + datetime" where
  "example_parse v =
     (case v of
        PStr s \<Rightarrow>
          if s = ''2017-01-01T12:00:00+01:00''
          then Inr \<lparr>dt_date = 736330, dt_time = 43200000000,
                    dt_tzinfo = Some (Tz ''tzoffset'' 3600)\<rparr>
          else if s = ''2017-01-01T12:00:00''
          then Inr \<lparr>dt_date = 736330, dt_time = 43200000000, dt_tzinfo = None\<rparr>
          else Inl (ValueError ''Unknown string format'')
      | _ \<Rightarrow> Inl TypeError)"

definition example_base :: pyenv where
  "example_base =
     \<lparr>builtin_str = (\<lambda>v. ''<object>''),
      str_kwargs = (\<lambda>d. Inl TypeError),
      bool_kwargs = (\<lambda>d. if d = [] then Inr (PBool False) else Inl TypeError),
      parser_parse = example_parse\<rparr>"

definition example_env :: pyenv where
  "example_env = example_base\<lparr>str_kwargs := py_str_kwargs example_base\<rparr>"

section \<open>Properties of results\<close>

text \<open>
  A validated timestamp is timezone-aware when it is a datetime that carries a
  \<open>tzinfo\<close>, and labelled UTC when that \<open>tzinfo\<close> is \<open>pytz.utc\<close>.
\<close>

definition is_aware :: "pyval \<Rightarrow> bool" where
  "is_aware v = (case v of PDatetime d \<Rightarrow> dt_tzinfo d \<noteq> None | _ \<Rightarrow> False)"

definition labelled_utc :: "pyval \<Rightarrow> bool" where
  "labelled_utc v = (case v of PDatetime d \<Rightarrow> dt_tzinfo d = Some pytz_utc | _ \<Rightarrow> False)"

text \<open>
  The words of a pattern: the set of strings it denotes, against which the matcher is
  checked.
\<close>

definition conc :: "string set \<Rightarrow> string set \<Rightarrow> string set" where
  "conc A B = {xs @ ys | xs ys. xs \<in> A \<and> ys \<in> B}"

fun lang_pow :: "nat \<Rightarrow> string set \<Rightarrow> string set" where
  "lang_pow 0 A = {[]}"
| "lang_pow (Suc n) A = conc A (lang_pow n A)"



definition Deriv :: "char \<Rightarrow> string set \<Rightarrow> string set" where
  "Deriv c A = {w. c # w \<in> A}"








text \<open>
  The form \<open><uuid-v4>\<close>: 36 characters, hyphens at the positions 8, 13, 18 and 23,
  lower-case hexadecimal digits elsewhere, the version digit \<open>4\<close> at position 14 and a
  variant digit \<open>8\<close>, \<open>9\<close>, \<open>a\<close> or \<open>b\<close> at position 19.
\<close>

definition is_uuid4_string :: "string \<Rightarrow> bool" where
  "is_uuid4_string u =
     (length u = 36
      \<and> list_all (\<lambda>i. if i \<in> {8, 13, 18, 23} then u ! i = CHR ''-''
                      else u ! i \<in> set ''0123456789abcdef'') [0..<36]
      \<and> u ! 14 = CHR ''4''
      \<and> u ! 19 \<in> set ''89ab'')"

text \<open>A type token that holds the separator \<open>--\<close> itself.\<close>

fun double_hyphen :: "string \<Rightarrow> bool" where
  "double_hyphen (a # b # cs) = ((a = CHR ''-'' \<and> b = CHR ''-'') \<or> double_hyphen (b # cs))"
| "double_hyphen _ = False"

text \<open>The 32 digits of a UUID in the groups of its text form.\<close>

definition grouped :: "string \<Rightarrow> string" where
  "grouped h =
     take 8 h @ ''-'' @ take 4 (drop 8 h) @ ''-'' @ take 4 (drop 12 h) @ ''-'' @
     take 4 (drop 16 h) @ ''-'' @ drop 20 h"

section \<open>Verified properties: construction, dispatch and BooleanProperty\<close>

declare validate.simps [simp del]

lemmas setters =
  set_required_def set_type_def set_fixed_value_def set_validate_def set_clean_def
  set_default_def set_contained_def set_required_prefix_def

lemma Property_init_cls [simp]: "p_cls (Property_init self kw) = p_cls self"
  by (cases self) (simp add: Property_init_def setters Let_def split: option.splits)

lemma Property_init_validate [simp]:
  "p_validate (Property_init self kw) = (truthy (kw_fixed kw) \<or> p_validate self)"
  by (cases self) (simp add: Property_init_def setters Let_def split: option.splits)

lemma Property_init_fixed_value [simp]:
  "p_fixed_value (Property_init self kw) =
     (if truthy (kw_fixed kw) then Some (kw_fixed kw) else p_fixed_value self)"
  by (cases self) (simp add: Property_init_def setters Let_def split: option.splits)

lemma Property_init_clean [simp]:
  "p_clean (Property_init self kw) =
     (case kw_clean kw of Some f \<Rightarrow> Some f | None \<Rightarrow> p_clean self)"
  by (cases self) (simp add: Property_init_def setters Let_def split: option.splits)

lemma Property_init_default [simp]:
  "p_default (Property_init self kw) =
     (case kw_default kw of
        Some g \<Rightarrow> Some g
      | None \<Rightarrow> if truthy (kw_fixed kw) then Some (Inr (kw_fixed kw)) else p_default self)"
  by (cases self) (simp add: Property_init_def setters Let_def split: option.splits)

lemma Property_init_contained [simp]:
  "p_contained (Property_init self kw) = p_contained self"
  by (cases self) (simp add: Property_init_def setters Let_def split: option.splits)

lemma Property_init_required_prefix [simp]:
  "p_required_prefix (Property_init self kw) = p_required_prefix self"
  by (cases self) (simp add: Property_init_def setters Let_def split: option.splits)

lemma Property_init_type [simp]:
  "p_type (Property_init self kw) = kw_type kw"
  by (cases self) (simp add: Property_init_def setters Let_def split: option.splits)

lemma set_type_fields [simp]:
  "p_cls (set_type x p) = p_cls p" "p_validate (set_type x p) = p_validate p"
  "p_clean (set_type x p) = p_clean p" "p_default (set_type x p) = p_default p"
  "p_contained (set_type x p) = p_contained p"
  "p_required_prefix (set_type x p) = p_required_prefix p"
  "p_fixed_value (set_type x p) = p_fixed_value p" "p_type (set_type x p) = x"
  by (cases p; simp add: set_type_def)+

lemma set_required_prefix_fields [simp]:
  "p_cls (set_required_prefix x p) = p_cls p"
  "p_validate (set_required_prefix x p) = p_validate p"
  "p_clean (set_required_prefix x p) = p_clean p"
  "p_default (set_required_prefix x p) = p_default p"
  "p_contained (set_required_prefix x p) = p_contained p"
  "p_required_prefix (set_required_prefix x p) = Some x"
  "p_fixed_value (set_required_prefix x p) = p_fixed_value p"
  by (cases p; simp add: set_required_prefix_def)+

lemma set_contained_fields [simp]:
  "p_cls (set_contained x p) = p_cls p" "p_validate (set_contained x p) = p_validate p"
  "p_clean (set_contained x p) = p_clean p" "p_default (set_contained x p) = p_default p"
  "p_contained (set_contained x p) = Some x"
  "p_required_prefix (set_contained x p) = p_required_prefix p"
  "p_fixed_value (set_contained x p) = p_fixed_value p"
  by (cases p; simp add: set_contained_def)+

lemma blank_fields [simp]:
  "p_cls (blank k) = k" "p_validate (blank k) = False" "p_clean (blank k) = None"
  "p_default (blank k) = None" "p_contained (blank k) = None"
  "p_required_prefix (blank k) = None" "p_fixed_value (blank k) = None"
  by (simp_all add: blank_def)

lemma no_kwargs_fields [simp]:
  "kw_fixed no_kwargs = PNone" "kw_clean no_kwargs = None" "kw_default no_kwargs = None"
  "kw_type no_kwargs = PNone" "kw_required no_kwargs = PBool False"
  by (simp_all add: no_kwargs_def)

lemma validate_fixed:
  "p_validate self \<Longrightarrow> validate E self v = default_validate E self v"
  by (simp add: validate.simps)

lemma validate_Boolean:
  "\<not> p_validate self \<Longrightarrow> p_cls self = BooleanProperty \<Longrightarrow>
     validate E self v = BooleanProperty_validate E self v"
  by (simp add: validate.simps)

lemma validate_Timestamp:
  "\<not> p_validate self \<Longrightarrow> p_cls self = TimestampProperty \<Longrightarrow>
     validate E self v = TimestampProperty_validate E v"
  by (simp add: validate.simps)

lemma validate_new_Boolean:
  "validate E (new_BooleanProperty no_kwargs) v =
     (case BooleanProperty_clean v of
        Inl (ValueError m) \<Rightarrow> Inl (ValueError ''must be a boolean value.'')
      | r \<Rightarrow> r)"
  by (simp add: validate_Boolean new_BooleanProperty_def BooleanProperty_validate_def clean_def)

lemma clean_new_Boolean:
  "clean E (new_BooleanProperty no_kwargs) v = BooleanProperty_clean v"
  by (simp add: new_BooleanProperty_def clean_def)

lemma BooleanProperty_validate_str:
  "validate E (new_BooleanProperty no_kwargs) (PStr s) =
     (if str_lower s \<in> {''true'', ''t''} then Inr (PBool True)
      else if str_lower s \<in> {''false'', ''f''} then Inr (PBool False)
      else Inl (ValueError ''must be a boolean value.''))"
  by (simp add: validate_new_Boolean BooleanProperty_clean_def py_in_def trues_def falses_def)

lemma BooleanProperty_validate_float:
  "validate E (new_BooleanProperty no_kwargs) (PFloat f) =
     (if f = Finite 1 then Inr (PBool True)
      else if f = Finite 0 then Inr (PBool False)
      else Inl (ValueError ''must be a boolean value.''))"
  by (cases f) (simp_all add: validate_new_Boolean BooleanProperty_clean_def)






lemma str_lower_examples:
  "str_lower ''true'' = ''true''" "str_lower ''T'' = ''t''" "str_lower ''false'' = ''false''"
  "str_lower ''f'' = ''f''" "str_lower ''maybe'' = ''maybe''" "str_lower ''1'' = ''1''"
  "str_lower ''0'' = ''0''" "str_lower ''TRUE'' = ''true''"
  by code_simp+



text \<open>
  Claim C10. Numbers are accepted by equality, on the path taken when \<open>value.lower()\<close>
  raises \<open>AttributeError\<close>: the strings \<open>"1"\<close> and \<open>"0"\<close> are rejected, the floats
  \<open>1.0\<close> and \<open>0.0\<close> give \<open>True\<close> and \<open>False\<close>, and every other float is rejected.
\<close>

theorem C10_boolean_numeric_by_equality:
  "validate E (new_BooleanProperty no_kwargs) (PStr ''1'') =
     Inl (ValueError ''must be a boolean value.'')
   \<and> validate E (new_BooleanProperty no_kwargs) (PStr ''0'') =
       Inl (ValueError ''must be a boolean value.'')
   \<and> validate E (new_BooleanProperty no_kwargs) (PFloat (Finite 1)) = Inr (PBool True)
   \<and> validate E (new_BooleanProperty no_kwargs) (PFloat (Finite 0)) = Inr (PBool False)
   \<and> validate E (new_BooleanProperty no_kwargs) (PFloat f) =
        (if f = Finite 1 then Inr (PBool True)
         else if f = Finite 0 then Inr (PBool False)
         else Inl (ValueError ''must be a boolean value.''))
   \<and> (py_lower v = Inl AttributeError \<longrightarrow>
        clean E (new_BooleanProperty no_kwargs) v =
          (if py_eq v (PInt 1) then Inr (PBool True)
           else if py_eq v (PInt 0) then Inr (PBool False)
           else Inl (ValueError ''not a coercible boolean value.'')))"
proof -
  have strs: "validate E (new_BooleanProperty no_kwargs) (PStr ''1'') =
      Inl (ValueError ''must be a boolean value.'')"
    "validate E (new_BooleanProperty no_kwargs) (PStr ''0'') =
      Inl (ValueError ''must be a boolean value.'')"
    by (simp_all add: BooleanProperty_validate_str str_lower_examples)
  have floats: "validate E (new_BooleanProperty no_kwargs) (PFloat (Finite 1)) = Inr (PBool True)"
    "validate E (new_BooleanProperty no_kwargs) (PFloat (Finite 0)) = Inr (PBool False)"
    by (simp_all add: BooleanProperty_validate_float)
  have num: "py_lower v = Inl AttributeError \<Longrightarrow>
        clean E (new_BooleanProperty no_kwargs) v =
          (if py_eq v (PInt 1) then Inr (PBool True)
           else if py_eq v (PInt 0) then Inr (PBool False)
           else Inl (ValueError ''not a coercible boolean value.''))"
    by (cases v) (auto simp add: clean_new_Boolean BooleanProperty_clean_def)
  show ?thesis
    using strs floats BooleanProperty_validate_float [of E f] num by blast
qed

theorem C10_boolean_numeric_by_equality_witness:
  "py_lower (PFloat (Finite 1)) = Inl AttributeError
   \<and> clean example_env (new_BooleanProperty no_kwargs) (PFloat (Finite 1)) = Inr (PBool True)
   \<and> validate example_env (new_BooleanProperty no_kwargs) (PFloat (Finite (1 / 2))) =
       Inl (ValueError ''must be a boolean value.'')"
  using C10_boolean_numeric_by_equality [of example_env "Finite (1 / 2)" "PFloat (Finite 1)"]
  by simp

section \<open>Verified properties: TimestampProperty and fixed values\<close>

lemma validate_new_Timestamp:
  "validate E (new_TimestampProperty no_kwargs) v = TimestampProperty_validate E v"
  by (simp add: validate_Timestamp new_TimestampProperty_def)

lemma astimezone_tz: "astimezone d z tz = Inr x \<Longrightarrow> dt_tzinfo x = Some tz"
  by (auto simp add: astimezone_def Let_def split: if_splits)

lemma localize_tz: "localize tz d = Inr x \<Longrightarrow> dt_tzinfo x = Some tz"
  by (auto simp add: localize_def split: option.splits)

lemma Timestamp_parsed_utc:
  assumes "TimestampProperty_validate E v = Inr r"
    and "\<forall>d. v \<noteq> PDatetime d" and "\<forall>d. v \<noteq> PDate d"
  shows "labelled_utc r"
proof -
  from assms obtain parsed where p: "parser_parse E v = Inr parsed"
    by (cases v; cases "parser_parse E v")
       (auto simp add: TimestampProperty_validate_def split: exn.splits)
  show ?thesis
  proof (cases "dt_tzinfo parsed")
    case None
    with assms p obtain x where "localize pytz_utc parsed = Inr x" "r = PDatetime x"
      by (cases v; cases "localize pytz_utc parsed")
         (auto simp add: TimestampProperty_validate_def)
    then show ?thesis
      by (simp add: labelled_utc_def localize_tz)
  next
    case (Some z)
    with assms p obtain x where "astimezone parsed z pytz_utc = Inr x" "r = PDatetime x"
      by (cases v; cases "astimezone parsed z pytz_utc")
         (auto simp add: TimestampProperty_validate_def)
    then show ?thesis
      by (simp add: labelled_utc_def astimezone_tz)
  qed
qed

text \<open>
  Claim C1, as the code has it. When \<open>TimestampProperty().validate\<close> accepts a value
  that is not a date or datetime object (a timestamp string), the result is
  timezone-aware and labelled UTC; a datetime object is returned unchanged, naive or in
  whatever zone it came; a date object gives a timezone-aware result.
\<close>

theorem C1_timestamp_output_zone:
  assumes "validate E (new_TimestampProperty no_kwargs) v = Inr r"
  shows "case v of
           PDatetime d \<Rightarrow> r = v
         | PDate d \<Rightarrow> is_aware r
         | _ \<Rightarrow> is_aware r \<and> labelled_utc r"
proof -
  have a: "labelled_utc x \<Longrightarrow> is_aware x" for x
    by (auto simp add: labelled_utc_def is_aware_def split: pyval.splits)
  from assms have t: "TimestampProperty_validate E v = Inr r"
    by (simp add: validate_new_Timestamp)
  show ?thesis
  proof (cases v)
    case (PDatetime d)
    with t have "r = v" by (simp add: TimestampProperty_validate_def)
    with PDatetime show ?thesis by simp
  next
    case (PDate d)
    with t show ?thesis
      by (auto simp add: TimestampProperty_validate_def is_aware_def datetime_combine_def)
  qed (use t a Timestamp_parsed_utc [OF t] in auto)
qed

theorem C1_timestamp_output_zone_witness:
  "validate example_env (new_TimestampProperty no_kwargs) (PStr ''2017-01-01T12:00:00+01:00'') =
     Inr (PDatetime \<lparr>dt_date = 736330, dt_time = 39600000000, dt_tzinfo = Some pytz_utc\<rparr>)
   \<and> is_aware (PDatetime \<lparr>dt_date = 736330, dt_time = 39600000000, dt_tzinfo = Some pytz_utc\<rparr>)
   \<and> labelled_utc (PDatetime \<lparr>dt_date = 736330, dt_time = 39600000000, dt_tzinfo = Some pytz_utc\<rparr>)"
proof -
  have v: "validate example_env (new_TimestampProperty no_kwargs)
             (PStr ''2017-01-01T12:00:00+01:00'') =
     Inr (PDatetime \<lparr>dt_date = 736330, dt_time = 39600000000, dt_tzinfo = Some pytz_utc\<rparr>)"
    by (simp add: validate_new_Timestamp TimestampProperty_validate_def example_env_def
        example_base_def example_parse_def astimezone_def wall_micros_def tz_utcoffset_def
        pytz_utc_def)
  show ?thesis
    using C1_timestamp_output_zone [OF v] v by simp
qed

text \<open>
  The claim as stated fails: a naive datetime object is accepted and comes back naive.
\<close>

theorem C1_naive_datetime_counterexample:
  "validate example_env (new_TimestampProperty no_kwargs)
     (PDatetime \<lparr>dt_date = 736330, dt_time = 0, dt_tzinfo = None\<rparr>) =
     Inr (PDatetime \<lparr>dt_date = 736330, dt_time = 0, dt_tzinfo = None\<rparr>)
   \<and> \<not> is_aware (PDatetime \<lparr>dt_date = 736330, dt_time = 0, dt_tzinfo = None\<rparr>)
   \<and> \<not> labelled_utc (PDatetime \<lparr>dt_date = 736330, dt_time = 0, dt_tzinfo = None\<rparr>)"
  by (simp add: validate_new_Timestamp TimestampProperty_validate_def is_aware_def labelled_utc_def)

text \<open>
  Claim C6. For every date-only input \<open>d\<close>, \<open>TimestampProperty().validate(d)\<close> returns the
  timezone-aware datetime of \<open>d\<close> at midnight with the zone US/Eastern attached, which
  is not UTC.
\<close>

theorem C6_date_only_us_eastern:
  "validate E (new_TimestampProperty no_kwargs) (PDate d) =
     Inr (PDatetime \<lparr>dt_date = d, dt_time = dt_time_midnight,
                      dt_tzinfo = Some pytz_timezone_US_Eastern\<rparr>)
   \<and> is_aware (PDatetime \<lparr>dt_date = d, dt_time = dt_time_midnight,
                            dt_tzinfo = Some pytz_timezone_US_Eastern\<rparr>)
   \<and> \<not> labelled_utc (PDatetime \<lparr>dt_date = d, dt_time = dt_time_midnight,
                            dt_tzinfo = Some pytz_timezone_US_Eastern\<rparr>)
   \<and> dt_time_midnight = 0
   \<and> pytz_timezone_US_Eastern = Tz ''US/Eastern'' (- 17760)"
  by (simp add: validate_new_Timestamp TimestampProperty_validate_def datetime_combine_def
      is_aware_def labelled_utc_def pytz_timezone_US_Eastern_def pytz_utc_def dt_time_midnight_def)

theorem C6_date_only_us_eastern_witness:
  "validate example_env (new_TimestampProperty no_kwargs) (PDate 736330) =
     Inr (PDatetime \<lparr>dt_date = 736330, dt_time = 0,
                      dt_tzinfo = Some (Tz ''US/Eastern'' (- 17760))\<rparr>)"
  using C6_date_only_us_eastern [of example_env 736330] by simp

text \<open>
  Claim C2, as the code has it. For a property constructed with a \<open>fixed\<close> value that
  is true in \<open>if fixed:\<close>, whatever \<open>clean\<close> and \<open>default\<close> are passed as well,
  \<open>validate(v)\<close> returns \<open>v\<close> exactly when \<open>v\<close> equals the fixed value and fails with
  "must equal '<fixed>'." otherwise; \<open>default()\<close> returns the fixed value when no
  \<open>default\<close> was passed, and what the passed \<open>default\<close> returns when one was.
\<close>

theorem C2_fixed_rewiring:
  assumes "truthy (kw_fixed kw)"
  shows "validate E (Property_init self kw) v =
           (if py_eq v (kw_fixed kw) then Inr v
            else Inl (ValueError (''must equal '' @ quoted (py_str E (kw_fixed kw)) @ ''.'')))
         \<and> call_default (Property_init self kw) r =
             (case kw_default kw of Some g \<Rightarrow> g | None \<Rightarrow> Inr (kw_fixed kw))"
  using assms
  by (simp add: validate_fixed default_validate_def call_default_def split: option.splits)

theorem C2_fixed_rewiring_witness:
  "truthy (PStr ''indicator'')
   \<and> validate example_env (new_TypeProperty (PStr ''indicator'')) (PStr ''indicator'') =
       Inr (PStr ''indicator'')
   \<and> validate example_env (new_TypeProperty (PStr ''indicator'')) (PStr ''malware'') =
       Inl (ValueError (''must equal '' @ quoted ''indicator'' @ ''.''))
   \<and> call_default (new_TypeProperty (PStr ''indicator'')) 0 = Inr (PStr ''indicator'')"
  using C2_fixed_rewiring [of "no_kwargs\<lparr>kw_fixed := PStr ''indicator''\<rparr>" example_env
      "blank TypeProperty" "PStr ''indicator''" 0]
    C2_fixed_rewiring [of "no_kwargs\<lparr>kw_fixed := PStr ''indicator''\<rparr>" example_env
      "blank TypeProperty" "PStr ''malware''" 0]
  by (simp add: new_TypeProperty_def py_str_def no_kwargs_def)

text \<open>
  The claim as stated fails: a \<open>default\<close> passed together with \<open>fixed\<close> is assigned
  last and wins, and a non-null \<open>fixed\<close> that is false in \<open>if fixed:\<close>, such as \<open>0\<close>,
  rewires nothing.
\<close>

theorem C2_default_override_counterexample:
  "call_default
     (new_Property (no_kwargs\<lparr>kw_fixed := PStr ''a'', kw_default := Some (Inr (PStr ''b''))\<rparr>)) 0 =
     Inr (PStr ''b'')
   \<and> validate example_env (new_Property (no_kwargs\<lparr>kw_fixed := PInt 0\<rparr>)) (PStr ''b'') =
       Inr (PStr ''b'')"
  by (simp add: new_Property_def call_default_def validate.simps Property_validate_def clean_def)

section \<open>Verified properties: ListProperty\<close>

lemma ListProperty_loop_length:
  "ListProperty_loop cv call call_kw items acc = Inr result \<Longrightarrow>
     length result = length acc + length items"
proof (induction items arbitrary: acc)
  case Nil
  then show ?case by simp
next
  case (Cons item items)
  from Cons.prems obtain x where
    "ListProperty_loop cv call call_kw items (acc @ [x]) = Inr result"
    by (auto split: sum.splits)
  from Cons.IH [OF this] show ?case by simp
qed

lemma ListProperty_validate_nonempty:
  assumes "ListProperty_validate cv call call_kw v = Inr r"
  shows "\<exists>xs. r = PList xs \<and> xs \<noteq> []"
proof -
  from assms obtain items result where
    "py_iter v = Inr items" "ListProperty_loop cv call call_kw items [] = Inr result"
    and r: "r = PList result" "\<not> length result < 1"
    by (auto simp add: ListProperty_validate_def split: sum.splits if_splits)
  then show ?thesis by auto
qed

lemma ListProperty_validate_empty:
  "py_iter v = Inr [] \<Longrightarrow>
     ListProperty_validate cv call call_kw v = Inl (ValueError ''must not be empty.'')"
  by (simp add: ListProperty_validate_def)

lemma validate_List:
  "\<not> p_validate self \<Longrightarrow> p_cls self = ListProperty \<Longrightarrow>
     validate E self v =
       ListProperty_validate
         (\<lambda>item. case p_contained self of
                    Some (Instance q) \<Rightarrow> validate E q item
                  | Some (External (Some vf) call call_kw) \<Rightarrow> vf item
                  | _ \<Rightarrow> Inl AttributeError)
         (contained_call E (p_contained self))
         (contained_call_kw E (p_contained self)) v"
  by (simp add: validate.simps)

lemma new_ListProperty_fields:
  assumes "new_ListProperty arg kw = Inr p"
  shows "p_cls p = ListProperty" and "p_validate p = truthy (kw_fixed kw)"
  using assms
  by (auto simp add: new_ListProperty_def set_contained_def blank_def split: sum.splits)

lemma new_ListProperty_String:
  "new_ListProperty (Class StringProperty) no_kwargs =
     Inr (Property_init (set_contained Str_type (blank ListProperty)) no_kwargs)"
  by (simp add: new_ListProperty_def)

lemma contained_call_Str:
  "contained_call E (Some Str_type) = (\<lambda>x. Inr (PStr (py_str E x)))"
  "contained_call_kw E (Some Str_type) = str_kwargs E"
  by (simp_all add: fun_eq_iff contained_call_def contained_call_kw_def)

lemma validate_List_of_String:
  "validate E (Property_init (set_contained Str_type (blank ListProperty)) no_kwargs) v =
     ListProperty_validate (\<lambda>item. Inl AttributeError)
       (\<lambda>x. Inr (PStr (py_str E x))) (str_kwargs E) v"
  by (simp add: validate_List set_contained_def blank_def contained_call_Str)

text \<open>
  Claim C8. Whatever the element validator and the input, \<open>ListProperty.validate\<close> never
  returns an empty sequence: a result is a list with at least one element, an input
  that yields no element fails with "must not be empty.", and
  \<open>ListProperty(StringProperty).validate(["a", "b"])\<close> returns \<open>["a", "b"]\<close>.
\<close>

theorem C8_list_never_empty:
  "(ListProperty_validate cv call call_kw v = Inr r \<longrightarrow> (\<exists>xs. r = PList xs \<and> xs \<noteq> []))
   \<and> (py_iter v = Inr [] \<longrightarrow>
        ListProperty_validate cv call call_kw v = Inl (ValueError ''must not be empty.''))
   \<and> (new_ListProperty arg kw = Inr p \<and> \<not> truthy (kw_fixed kw) \<and> validate E p v = Inr r \<longrightarrow>
        (\<exists>xs. r = PList xs \<and> xs \<noteq> []))
   \<and> (new_ListProperty arg kw = Inr p \<and> \<not> truthy (kw_fixed kw) \<and> py_iter v = Inr [] \<longrightarrow>
        validate E p v = Inl (ValueError ''must not be empty.''))
   \<and> (new_ListProperty (Class StringProperty) no_kwargs = Inr q \<longrightarrow>
        validate E q (PList []) = Inl (ValueError ''must not be empty.'')
        \<and> validate E q (PList [PStr ''a'', PStr ''b'']) = Inr (PList [PStr ''a'', PStr ''b'']))"
proof -
  have a: "ListProperty_validate cv call call_kw v = Inr r \<longrightarrow> (\<exists>xs. r = PList xs \<and> xs \<noteq> [])"
    using ListProperty_validate_nonempty by blast
  have b: "py_iter v = Inr [] \<longrightarrow>
        ListProperty_validate cv call call_kw v = Inl (ValueError ''must not be empty.'')"
    using ListProperty_validate_empty by blast
  have c: "new_ListProperty arg kw = Inr p \<and> \<not> truthy (kw_fixed kw) \<and> validate E p v = Inr r \<longrightarrow>
        (\<exists>xs. r = PList xs \<and> xs \<noteq> [])"
  proof (intro impI, elim conjE)
    assume n: "new_ListProperty arg kw = Inr p" and f: "\<not> truthy (kw_fixed kw)"
      and v: "validate E p v = Inr r"
    from new_ListProperty_fields [OF n] f have "p_cls p = ListProperty" "\<not> p_validate p"
      by simp_all
    with v show "\<exists>xs. r = PList xs \<and> xs \<noteq> []"
      using ListProperty_validate_nonempty by (simp add: validate_List)
  qed
  have d: "new_ListProperty arg kw = Inr p \<and> \<not> truthy (kw_fixed kw) \<and> py_iter v = Inr [] \<longrightarrow>
        validate E p v = Inl (ValueError ''must not be empty.'')"
  proof (intro impI, elim conjE)
    assume n: "new_ListProperty arg kw = Inr p" and f: "\<not> truthy (kw_fixed kw)"
      and v: "py_iter v = Inr []"
    from new_ListProperty_fields [OF n] f have "p_cls p = ListProperty" "\<not> p_validate p"
      by simp_all
    with v show "validate E p v = Inl (ValueError ''must not be empty.'')"
      by (simp add: validate_List ListProperty_validate_empty)
  qed
  have e: "new_ListProperty (Class StringProperty) no_kwargs = Inr q \<longrightarrow>
        validate E q (PList []) = Inl (ValueError ''must not be empty.'')
        \<and> validate E q (PList [PStr ''a'', PStr ''b'']) = Inr (PList [PStr ''a'', PStr ''b''])"
    by (auto simp add: new_ListProperty_String validate_List_of_String ListProperty_validate_def
        py_str_def)
  from a b c d e show ?thesis by blast
qed

theorem C8_list_never_empty_witness:
  "new_ListProperty (Class StringProperty) no_kwargs =
     Inr (Property_init (set_contained Str_type (blank ListProperty)) no_kwargs)
   \<and> \<not> truthy (kw_fixed no_kwargs)
   \<and> py_iter (PList []) = Inr []
   \<and> validate example_env
        (Property_init (set_contained Str_type (blank ListProperty)) no_kwargs) (PList []) =
       Inl (ValueError ''must not be empty.'')
   \<and> validate example_env
        (Property_init (set_contained Str_type (blank ListProperty)) no_kwargs)
        (PList [PStr ''a'', PStr ''b'']) = Inr (PList [PStr ''a'', PStr ''b''])"
  using C8_list_never_empty [of "\<lambda>item. Inl AttributeError" "\<lambda>x. Inr x" "\<lambda>d. Inl TypeError"
      "PList []" "PList []" "Class StringProperty" no_kwargs
      "Property_init (set_contained Str_type (blank ListProperty)) no_kwargs" example_env
      "Property_init (set_contained Str_type (blank ListProperty)) no_kwargs"]
  by (simp add: new_ListProperty_String)

section \<open>Verified properties: the matcher against the words of a pattern\<close>






lemma Deriv_iff: "w \<in> Deriv c A \<longleftrightarrow> c # w \<in> A"
  by (simp add: Deriv_def)



lemma Deriv_lang_pow_0: "Deriv c (lang_pow 0 A) = {}"
  by (auto simp add: Deriv_iff)






section \<open>Verified properties: the words of SELECTOR_REGEX\<close>



















section \<open>Verified properties: SelectorProperty\<close>


















section \<open>Verified properties: ReferenceProperty\<close>

lemma validate_new_Reference_str:
  "validate E (new_ReferenceProperty r (PStr t)) (PStr s) =
     (if t \<noteq> [] \<and> \<not> prefix t s
      then Inl (ValueError (''must start with '' @ quoted t @ ''.''))
      else if re_match REF_REGEX s then Inr (PStr s)
      else Inl (ValueError ''must match <object-type>--<guid>.''))"
  by (simp add: validate.simps new_ReferenceProperty_def ReferenceProperty_validate_def
      py_str_def)

lemma REF_REGEX_examples:
  "matches REF_REGEX ''malware--00000000-0000-4000-8000-000000000000''"
  "matches REF_REGEX ''malware-analysis--00000000-0000-4000-8000-000000000000''"
  by code_simp+

lemma REF_REGEX_re_match:
  "re_match REF_REGEX ''malware--00000000-0000-4000-8000-000000000000''"
  "re_match REF_REGEX ''malware-analysis--00000000-0000-4000-8000-000000000000''"
  unfolding re_match_def using REF_REGEX_examples by blast+

text \<open>
  Claim C5 at its failing input. \<open>ReferenceProperty(type="malware")\<close> accepts
  \<open>"malware--<uuid>"\<close> and rejects \<open>"campaign--<uuid>"\<close> with the prefix error, as the
  claim says; it also accepts \<open>"malware-analysis--<uuid>"\<close>, an identifier of another
  type, which does not start with \<open>"malware--"\<close>: the test is \<open>startswith(self.type)\<close>,
  without the separator.
\<close>

theorem C5_reference_prefix_lacks_separator:
  "validate example_env (new_ReferenceProperty (PBool False) (PStr ''malware''))
     (PStr ''malware--00000000-0000-4000-8000-000000000000'') =
     Inr (PStr ''malware--00000000-0000-4000-8000-000000000000'')
   \<and> validate example_env (new_ReferenceProperty (PBool False) (PStr ''malware''))
       (PStr ''campaign--00000000-0000-4000-8000-000000000000'') =
       Inl (ValueError (''must start with '' @ quoted ''malware'' @ ''.''))
   \<and> validate example_env (new_ReferenceProperty (PBool False) (PStr ''malware''))
       (PStr ''malware-analysis--00000000-0000-4000-8000-000000000000'') =
       Inr (PStr ''malware-analysis--00000000-0000-4000-8000-000000000000'')
   \<and> \<not> prefix ''malware--'' ''malware-analysis--00000000-0000-4000-8000-000000000000''"
  by (simp add: validate_new_Reference_str REF_REGEX_re_match)

section \<open>Verified properties: IDProperty.validate\<close>

lemma validate_new_ID:
  "new_IDProperty (PStr t) = Inr p \<Longrightarrow> validate E p v = IDProperty_validate p v"
  by (auto simp add: validate.simps new_IDProperty_def)

lemma new_ID_prefix:
  "new_IDProperty (PStr t) = Inr p \<Longrightarrow> p_required_prefix p = Some (t @ ''--'')"
  by (auto simp add: new_IDProperty_def)

lemma IDProperty_validate_str:
  "p_required_prefix p = Some pre \<Longrightarrow>
   IDProperty_validate p (PStr s) =
     (if \<not> prefix pre s then Inl (ValueError (''must start with '' @ quoted pre @ ''.''))
      else (case uuid_after_prefix s of
              Inl e \<Rightarrow> Inl (ValueError ''must have a valid version 4 UUID after the prefix.'')
            | Inr u \<Rightarrow> Inr (PStr s)))"
  by (simp add: IDProperty_validate_def)

lemma uuid_after_prefix_examples:
  "uuid_after_prefix ''malware--00000000-0000-1000-8000-000000000000'' =
     Inr 0x40008000000000000000"
  "uuid_after_prefix ''malware--not-a-uuid'' =
     Inl (ValueError ''badly formed hexadecimal UUID string'')"
  by code_simp+

lemma new_IDProperty_str:
  "new_IDProperty (PStr t) =
     Inr (Property_init (set_required_prefix (t @ ''--'') (blank IDProperty)) no_kwargs)"
  by (simp add: new_IDProperty_def)

text \<open>
  Claim C3 at its failing input. \<open>IDProperty("malware")\<close> rejects a value without the
  prefix with the prefix error and a suffix that is no UUID with the UUID error, as the
  claim says; it accepts a well-formed UUID of version 1, because
  \<open>uuid.UUID(..., version=4)\<close> overwrites the version field instead of checking it.
\<close>

theorem C3_id_accepts_other_uuid_version:
  "new_IDProperty (PStr ''malware'') =
     Inr (Property_init (set_required_prefix ''malware--'' (blank IDProperty)) no_kwargs)
   \<and> validate example_env
        (Property_init (set_required_prefix ''malware--'' (blank IDProperty)) no_kwargs)
        (PStr ''malware--00000000-0000-1000-8000-000000000000'') =
       Inr (PStr ''malware--00000000-0000-1000-8000-000000000000'')
   \<and> validate example_env
        (Property_init (set_required_prefix ''malware--'' (blank IDProperty)) no_kwargs)
        (PStr ''campaign--00000000-0000-4000-8000-000000000000'') =
       Inl (ValueError (''must start with '' @ quoted ''malware--'' @ ''.''))
   \<and> validate example_env
        (Property_init (set_required_prefix ''malware--'' (blank IDProperty)) no_kwargs)
        (PStr ''malware--not-a-uuid'') =
       Inl (ValueError ''must have a valid version 4 UUID after the prefix.'')"
proof -
  have n: "new_IDProperty (PStr ''malware'') =
     Inr (Property_init (set_required_prefix ''malware--'' (blank IDProperty)) no_kwargs)"
    by (simp add: new_IDProperty_str)
  have pre: "p_required_prefix
      (Property_init (set_required_prefix ''malware--'' (blank IDProperty)) no_kwargs) =
      Some ''malware--''"
    by simp
  show ?thesis
    by (simp add: n validate_new_ID [OF n] IDProperty_validate_str [OF pre]
        uuid_after_prefix_examples)
qed

section \<open>Verified properties: IDProperty.default\<close>

lemma hex_digit_in: "d < 16 \<Longrightarrow> hex_digit d \<in> set ''0123456789abcdef''"
  unfolding hex_digit_def by (rule nth_mem) simp

lemma hex_digits_length [simp]: "length (hex_digits k i) = k"
  by (induction k arbitrary: i) simp_all

lemma hex_digits_chars: "set (hex_digits k i) \<subseteq> set ''0123456789abcdef''"
proof (induction k arbitrary: i)
  case 0
  show ?case by simp
next
  case (Suc k)
  have "nat (i mod 16) < 16" by simp
  from hex_digit_in [OF this] Suc [of "i div 16"] show ?case by simp
qed

lemma hex_digits_nth:
  "j < k \<Longrightarrow> hex_digits k i ! j = hex_digit (nat ((i div 16 ^ (k - 1 - j)) mod 16))"
proof (induction k arbitrary: i j)
  case 0
  then show ?case by simp
next
  case (Suc k)
  show ?case
  proof (cases "j < k")
    case True
    then have e: "Suc k - 1 - j = Suc (k - 1 - j)" by simp
    have "i div 16 div 16 ^ (k - 1 - j) = i div (16 * 16 ^ (k - 1 - j))"
      by (simp add: zdiv_zmult2_eq)
    also have "\<dots> = i div 16 ^ (Suc k - 1 - j)"
      unfolding e by simp
    finally have d: "i div 16 div 16 ^ (k - 1 - j) = i div 16 ^ (Suc k - 1 - j)" .
    from True have "hex_digits (Suc k) i ! j = hex_digits k (i div 16) ! j"
      by (simp add: nth_append)
    also from True have "\<dots> = hex_digit (nat ((i div 16 div 16 ^ (k - 1 - j)) mod 16))"
      by (rule Suc.IH)
    finally show ?thesis
      unfolding d .
  next
    case False
    with Suc.prems have "j = k" by simp
    then show ?thesis by (simp add: nth_append)
  qed
qed

lemma hex_char_facts:
  assumes "c \<in> set ''0123456789abcdef''"
  shows "\<not> is_space c" and "c \<noteq> CHR ''u''" and "c \<notin> set ''{}''" and "c \<noteq> CHR ''-''"
    and "c \<noteq> CHR ''_''" and "c \<noteq> CHR ''+''" and "c \<noteq> CHR ''x''" and "c \<noteq> CHR ''X''"
    and "\<exists>v. hex_value c = Some v \<and> 0 \<le> v \<and> v < 16"
  using assms by (auto simp add: is_space_def hex_value_def)

lemma str_remove_id: "old \<noteq> [] \<Longrightarrow> hd old \<notin> set s \<Longrightarrow> str_remove old s = s"
  by (induction s) (auto simp add: prefix_Cons)

lemma str_remove_hyphen: "str_remove ''-'' s = filter (\<lambda>c. c \<noteq> CHR ''-'') s"
  by (induction s) (auto simp add: prefix_Cons)

lemma dropWhile_none: "\<forall>x \<in> set xs. \<not> P x \<Longrightarrow> dropWhile P xs = xs"
  by (cases xs) simp_all

lemma str_strip_id: "\<forall>c \<in> set s. c \<notin> set chars \<Longrightarrow> str_strip chars s = s"
  by (simp add: str_strip_def dropWhile_none)

lemma UUID_str_grouped: "UUID_str i = grouped (hex_digits 32 i)"
  by (simp add: UUID_str_def grouped_def Let_def)

lemma ungroup:
  assumes "CHR ''-'' \<notin> set h"
  shows "filter (\<lambda>c. c \<noteq> CHR ''-'') (grouped h) = h"
proof -
  have keep: "filter (\<lambda>c. c \<noteq> CHR ''-'') xs = xs" if "set xs \<subseteq> set h" for xs
    using that assms by (auto intro!: filter_True)
  have "filter (\<lambda>c. c \<noteq> CHR ''-'') (grouped h) =
      take 8 h @ take 4 (drop 8 h) @ take 4 (drop 12 h) @ take 4 (drop 16 h) @ drop 20 h"
    by (simp add: grouped_def keep set_take_subset set_drop_subset
        subset_trans [OF set_take_subset set_drop_subset])
  also have "take 4 (drop 16 h) @ drop 20 h = drop 16 h"
    using append_take_drop_id [of 4 "drop 16 h"] by simp
  also have "take 4 (drop 12 h) @ drop 16 h = drop 12 h"
    using append_take_drop_id [of 4 "drop 12 h"] by simp
  also have "take 4 (drop 8 h) @ drop 12 h = drop 8 h"
    using append_take_drop_id [of 4 "drop 8 h"] by simp
  also have "take 8 h @ drop 8 h = h"
    by simp
  finally show ?thesis .
qed

lemma grouped_nth:
  assumes "length h = 32" and "i < 36"
  shows "grouped h ! i =
     (if i < 8 then h ! i else if i = 8 then CHR ''-''
      else if i < 13 then h ! (i - 1) else if i = 13 then CHR ''-''
      else if i < 18 then h ! (i - 2) else if i = 18 then CHR ''-''
      else if i < 23 then h ! (i - 3) else if i = 23 then CHR ''-''
      else h ! (i - 4))"
  using assms by (auto simp add: grouped_def nth_append nth_Cons' min_def)

lemma grouped_length: "length h = 32 \<Longrightarrow> length (grouped h) = 36"
  by (simp add: grouped_def)

lemma nibble_as_bits: "(x div 16 ^ k) mod 16 = take_bit 4 (drop_bit (4 * k) (x :: int))"
proof -
  have "(16 :: int) ^ k = 2 ^ (4 * k)"
    by (simp add: power_mult)
  then show ?thesis
    by (simp add: take_bit_eq_mod drop_bit_eq_div)
qed

lemmas bit_rules = bit_and_iff bit_or_iff bit_not_iff bit_push_bit_iff

lemma bit_4_iff: "bit (4 :: int) k \<longleftrightarrow> k = 2"
proof -
  have "(4 :: int) = push_bit 2 1" by simp
  then show ?thesis
    by (simp only: bit_push_bit_iff bit_1_iff) auto
qed

lemma bit_version:
  "k < 4 \<Longrightarrow> bit (set_version i 4) (76 + k) = (k = 2)"
proof -
  assume "k < 4"
  then consider "k = 0" | "k = 1" | "k = 2" | "k = 3" by linarith
  then show ?thesis
    by cases (simp_all add: set_version_def Let_def bit_rules)
qed

lemma bit_variant:
  "bit (set_version i 4) 63" "\<not> bit (set_version i 4) 62"
  by (simp_all add: set_version_def Let_def bit_rules)

lemma version_nibble: "(set_version i 4 div 16 ^ 19) mod 16 = 4"
proof -
  have "take_bit 4 (drop_bit 76 (set_version i 4)) = (4 :: int)"
  proof (rule bit_eqI)
    fix k
    show "bit (take_bit 4 (drop_bit 76 (set_version i 4))) k = bit (4 :: int) k"
    proof (cases "k < 4")
      case True
      with bit_version [of k i] show ?thesis
        by (simp add: bit_take_bit_iff bit_drop_bit_eq bit_4_iff)
    next
      case False
      then show ?thesis
        by (simp add: bit_take_bit_iff bit_4_iff)
    qed
  qed
  then show ?thesis
    using nibble_as_bits [of "set_version i 4" 19] by simp
qed

lemma variant_nibble:
  "(set_version i 4 div 16 ^ 15) mod 16 \<in> {8, 9, 10, 11}"
proof -
  define y where "y = take_bit 4 (drop_bit 60 (set_version i 4))"
  have b3: "bit y 3" and b2: "\<not> bit y 2"
    using bit_variant [of i] by (simp_all add: y_def bit_take_bit_iff bit_drop_bit_eq)
  have r: "0 \<le> y" "y < 16"
    using take_bit_int_less_exp [of 4 "drop_bit 60 (set_version i 4)"]
    by (simp_all add: y_def)
  have "bit y 3 \<longleftrightarrow> odd (y div 8)" "bit y 2 \<longleftrightarrow> odd (y div 4)"
    by (simp_all add: bit_iff_odd)
  with b3 b2 have "odd (y div 8)" "even (y div 4)" by simp_all
  with r have "y = 8 \<or> y = 9 \<or> y = 10 \<or> y = 11"
    by presburger
  then have "y \<in> {8, 9, 10, 11}" by auto
  then show ?thesis
    using nibble_as_bits [of "set_version i 4" 15] by (simp add: y_def)
qed

lemma partition_at_prefixed:
  "\<not> double_hyphen t \<Longrightarrow>
     \<exists>a. partition_at ''--'' (t @ ''--'' @ u) = Some (a, u)
        \<or> partition_at ''--'' (t @ ''--'' @ u) = Some (a, CHR ''-'' # u)"
proof (induction t)
  case Nil
  show ?case by simp
next
  case (Cons c cs)
  show ?case
  proof (cases "prefix ''--'' ((c # cs) @ ''--'' @ u)")
    case True
    with Cons.prems have "cs = []"
      by (cases cs) auto
    with True show ?thesis by auto
  next
    case False
    from Cons.prems have "\<not> double_hyphen cs"
      by (cases cs) auto
    from Cons.IH [OF this] obtain a where
      "partition_at ''--'' (cs @ ''--'' @ u) = Some (a, u)
        \<or> partition_at ''--'' (cs @ ''--'' @ u) = Some (a, CHR ''-'' # u)"
      by blast
    with False have
      "partition_at ''--'' ((c # cs) @ ''--'' @ u) = Some (c # a, u)
        \<or> partition_at ''--'' ((c # cs) @ ''--'' @ u) = Some (c # a, CHR ''-'' # u)"
      by auto
    then show ?thesis by blast
  qed
qed

lemma int_digits16_hex:
  assumes "set cs \<subseteq> set ''0123456789abcdef''" and "cs \<noteq> []"
  shows "\<exists>v. int_digits16 us_ok end_ok acc cs = Some (acc * 16 ^ length cs + v)
           \<and> 0 \<le> v \<and> v < 16 ^ length cs"
  using assms
proof (induction cs arbitrary: us_ok end_ok acc)
  case Nil
  then show ?case by simp
next
  case (Cons c cs)
  from Cons.prems have "c \<in> set ''0123456789abcdef''" by simp
  from hex_char_facts(5,9) [OF this] obtain d where
    d: "c \<noteq> CHR ''_''" "hex_value c = Some d" "0 \<le> d" "d < 16"
    by blast
  show ?case
  proof (cases "cs = []")
    case True
    with d have "int_digits16 us_ok end_ok acc (c # cs) = Some (acc * 16 ^ length (c # cs) + d)
        \<and> 0 \<le> d \<and> d < 16 ^ length (c # cs)"
      by simp
    then show ?thesis by blast
  next
    case False
    with Cons.prems Cons.IH [of True True "acc * 16 + d"] obtain v where
      v: "int_digits16 True True (acc * 16 + d) cs = Some ((acc * 16 + d) * 16 ^ length cs + v)"
      "0 \<le> v" "v < 16 ^ length cs"
      by auto
    define P where "P = (16 :: int) ^ length cs"
    have P: "0 < P" by (simp add: P_def)
    have "d * P \<le> 15 * P"
      using d P by (intro mult_right_mono) simp_all
    with v have lt: "d * P + v < 16 * P"
      unfolding P_def [symmetric] by linarith
    from d v P have ge: "0 \<le> d * P + v"
      by simp
    from d v have "int_digits16 us_ok end_ok acc (c # cs) =
        Some (acc * 16 ^ length (c # cs) + (d * 16 ^ length cs + v))"
      by (simp add: algebra_simps)
    with lt ge have "int_digits16 us_ok end_ok acc (c # cs) =
        Some (acc * 16 ^ length (c # cs) + (d * 16 ^ length cs + v))
        \<and> 0 \<le> d * 16 ^ length cs + v \<and> d * 16 ^ length cs + v < 16 ^ length (c # cs)"
      by (simp add: P_def)
    then show ?thesis by blast
  qed
qed

lemma int_base16_hex:
  assumes "set h \<subseteq> set ''0123456789abcdef''" and "length h = 32"
  shows "\<exists>v. int_base16 h = Inr v \<and> 0 \<le> v \<and> v < 2 ^ 128"
proof -
  from assms have ne: "h \<noteq> []" by auto
  have sp: "\<forall>c \<in> set h. \<not> is_space c"
    using assms(1) hex_char_facts(1) by blast
  then have s1: "rev (dropWhile is_space (rev (dropWhile is_space h))) = h"
    by (simp add: dropWhile_none)
  from ne assms(1) have hd: "hd h \<in> set ''0123456789abcdef''"
    using hd_in_set by blast
  from hex_char_facts(4,6) [OF hd] have sign: "hd h \<noteq> CHR ''-''" "hd h \<noteq> CHR ''+''"
    by simp_all
  have "\<not> prefix ''0x'' h \<and> \<not> prefix ''0X'' h"
  proof (cases h)
    case Nil
    with ne show ?thesis by simp
  next
    case (Cons a as)
    show ?thesis
    proof (cases as)
      case Nil
      with Cons show ?thesis by simp
    next
      case (Cons b bs)
      with \<open>h = a # as\<close> assms(1) have "b \<in> set ''0123456789abcdef''" by simp
      from hex_char_facts(7,8) [OF this] Cons \<open>h = a # as\<close> show ?thesis by simp
    qed
  qed
  then have pre: "\<not> (prefix ''0x'' h \<or> prefix ''0X'' h)" by simp
  from int_digits16_hex [OF assms(1) ne, of False False 0] obtain v where
    v: "int_digits16 False False 0 h = Some v" "0 \<le> v" "v < 16 ^ length h"
    by auto
  have "(16 :: int) ^ 32 = 2 ^ 128" by simp
  with v assms(2) have "v < 2 ^ 128" by simp
  moreover from v s1 sign pre ne have "int_base16 h = Inr v"
    unfolding int_base16_def Let_def by simp
  ultimately show ?thesis using v by blast
qed

lemma uuid_UUID_grouped:
  assumes "set h \<subseteq> set ''0123456789abcdef''" and "length h = 32"
    and "x = grouped h \<or> x = CHR ''-'' # grouped h"
  shows "\<exists>i. uuid_UUID x 4 = Inr i"
proof -
  have hy: "CHR ''-'' \<notin> set h"
    using assms(1) hex_char_facts(4) by blast
  have gs: "set (grouped h) \<subseteq> insert CHR ''-'' (set h)"
    by (auto simp add: grouped_def dest: in_set_takeD in_set_dropD)
  with assms(3) have xs: "\<forall>c \<in> set x. c = CHR ''-'' \<or> c \<in> set h"
    by auto
  have cx: "c \<noteq> CHR ''u'' \<and> c \<notin> set ''{}''" if "c \<in> set x" for c
  proof (cases "c = CHR ''-''")
    case True
    then show ?thesis by simp
  next
    case False
    with that xs have "c \<in> set h" by blast
    with assms(1) have "c \<in> set ''0123456789abcdef''" by (rule subsetD)
    from hex_char_facts(2,3) [OF this] show ?thesis by blast
  qed
  have nu: "CHR ''u'' \<notin> set x"
    using cx by blast
  have nb: "\<forall>c \<in> set x. c \<notin> set ''{}''"
    using cx by blast
  from nu have r1: "str_remove ''urn:'' x = x"
    by (intro str_remove_id) simp_all
  from nu have r2: "str_remove ''uuid:'' x = x"
    by (intro str_remove_id) simp_all
  from nb have r3: "str_strip ''{}'' x = x"
    by (rule str_strip_id)
  from assms(3) have r4: "str_remove ''-'' x = h"
    using ungroup [OF hy] by (auto simp add: str_remove_hyphen)
  from int_base16_hex [OF assms(1,2)] obtain v where
    v: "int_base16 h = Inr v" "0 \<le> v" "v < 2 ^ 128"
    by blast
  with assms(2) have "uuid_UUID x 4 = Inr (set_version v 4)"
    unfolding uuid_UUID_def Let_def r1 r2 r3 r4 by simp
  then show ?thesis by blast
qed

lemma uuid4_string:
  "is_uuid4_string (UUID_str (uuid_uuid4 r))"
proof -
  define n where "n = uuid_uuid4 r"
  define h where "h = hex_digits 32 n"
  have len: "length h = 32" by (simp add: h_def)
  have chars: "set h \<subseteq> set ''0123456789abcdef''"
    unfolding h_def by (rule hex_digits_chars)
  have u: "UUID_str (uuid_uuid4 r) = grouped h"
    by (simp add: UUID_str_grouped h_def n_def)
  have mem: "h ! j \<in> set ''0123456789abcdef''" if "j < 32" for j
    using chars len that nth_mem [of j h] by (auto simp only: subset_iff)
  have pick: "if i \<in> {8, 13, 18, 23} then grouped h ! i = CHR ''-''
             else grouped h ! i \<in> set ''0123456789abcdef''"
    if a: "grouped h ! i = h ! j" "j < 32" "i \<notin> {8, 13, 18, 23}" for i j
  proof -
    from mem [OF a(2)] a(1) have "grouped h ! i \<in> set ''0123456789abcdef''"
      by (simp only:)
    with a(3) show ?thesis by (simp only: if_False)
  qed
  have pos: "if i \<in> {8, 13, 18, 23} then grouped h ! i = CHR ''-''
             else grouped h ! i \<in> set ''0123456789abcdef''" if "i < 36" for i
  proof -
    from that consider "i < 8" | "i = 8" | "8 < i \<and> i < 13" | "i = 13" | "13 < i \<and> i < 18"
      | "i = 18" | "18 < i \<and> i < 23" | "i = 23" | "23 < i \<and> i < 36"
      by linarith
    then show ?thesis
    proof cases
      case 1
      then have "grouped h ! i = h ! i" "i < 32" "i \<notin> {8, 13, 18, 23}"
        using grouped_nth [OF len that] by auto
      then show ?thesis by (rule pick)
    next
      case 2
      then show ?thesis using grouped_nth [OF len that] by simp
    next
      case 3
      then have "grouped h ! i = h ! (i - 1)" "i - 1 < 32" "i \<notin> {8, 13, 18, 23}"
        using grouped_nth [OF len that] by auto
      then show ?thesis by (rule pick)
    next
      case 4
      then show ?thesis using grouped_nth [OF len that] by simp
    next
      case 5
      then have "grouped h ! i = h ! (i - 2)" "i - 2 < 32" "i \<notin> {8, 13, 18, 23}"
        using grouped_nth [OF len that] by auto
      then show ?thesis by (rule pick)
    next
      case 6
      then show ?thesis using grouped_nth [OF len that] by simp
    next
      case 7
      then have "grouped h ! i = h ! (i - 3)" "i - 3 < 32" "i \<notin> {8, 13, 18, 23}"
        using grouped_nth [OF len that] by auto
      then show ?thesis by (rule pick)
    next
      case 8
      then show ?thesis using grouped_nth [OF len that] by simp
    next
      case 9
      with that have "grouped h ! i = h ! (i - 4)" "i - 4 < 32" "i \<notin> {8, 13, 18, 23}"
        using grouped_nth [OF len that] by auto
      then show ?thesis by (rule pick)
    qed
  qed
  have "h ! 12 = hex_digit (nat ((n div 16 ^ (32 - 1 - 12)) mod 16))"
    unfolding h_def by (rule hex_digits_nth) simp
  also have "(n div 16 ^ (32 - 1 - 12)) mod 16 = 4"
    using version_nibble [of "uint r"] by (simp add: n_def uuid_uuid4_def)
  finally have "h ! 12 = CHR ''4''"
    by (simp add: hex_digit_def)
  then have v: "grouped h ! 14 = CHR ''4''"
    using grouped_nth [OF len, of 14] by simp
  have "h ! 16 = hex_digit (nat ((n div 16 ^ (32 - 1 - 16)) mod 16))"
    unfolding h_def by (rule hex_digits_nth) simp
  moreover have "(n div 16 ^ (32 - 1 - 16)) mod 16 \<in> {8, 9, 10, 11}"
    using variant_nibble [of "uint r"] by (simp add: n_def uuid_uuid4_def)
  ultimately have "h ! 16 \<in> set ''89ab''"
    by (auto simp add: hex_digit_def)
  then have w: "grouped h ! 19 \<in> set ''89ab''"
    using grouped_nth [OF len, of 19] by simp
  have "list_all (\<lambda>i. if i \<in> {8, 13, 18, 23} then grouped h ! i = CHR ''-''
                      else grouped h ! i \<in> set ''0123456789abcdef'') [0..<36]"
    unfolding list_all_iff
  proof (rule ballI)
    fix i :: nat assume "i \<in> set [0..<36]"
    then have "i < 36" by simp
    then show "if i \<in> {8, 13, 18, 23} then grouped h ! i = CHR ''-''
               else grouped h ! i \<in> set ''0123456789abcdef''"
      by (rule pos)
  qed
  with v w grouped_length [OF len] show ?thesis
    unfolding u is_uuid4_string_def by blast
qed

lemma IDProperty_roundtrip:
  assumes "\<not> double_hyphen t" and "new_IDProperty (PStr t) = Inr p"
  shows "validate E p (PStr (t @ ''--'' @ UUID_str (uuid_uuid4 r))) =
           Inr (PStr (t @ ''--'' @ UUID_str (uuid_uuid4 r)))"
proof -
  define h where "h = hex_digits 32 (uuid_uuid4 r)"
  have len: "length h = 32" by (simp add: h_def)
  have chars: "set h \<subseteq> set ''0123456789abcdef''"
    unfolding h_def by (rule hex_digits_chars)
  have u: "UUID_str (uuid_uuid4 r) = grouped h"
    by (simp add: UUID_str_grouped h_def)
  from partition_at_prefixed [OF assms(1), of "grouped h"] obtain a where
    "partition_at ''--'' (t @ ''--'' @ grouped h) = Some (a, grouped h)
     \<or> partition_at ''--'' (t @ ''--'' @ grouped h) = Some (a, CHR ''-'' # grouped h)"
    by blast
  then obtain x where x: "str_split1 ''--'' (t @ ''--'' @ grouped h) = [a, x]"
      "x = grouped h \<or> x = CHR ''-'' # grouped h"
    by (auto simp add: str_split1_def)
  from uuid_UUID_grouped [OF chars len x(2)] obtain i where "uuid_UUID x 4 = Inr i"
    by blast
  with x have "uuid_after_prefix (t @ ''--'' @ grouped h) = Inr i"
    by (simp add: uuid_after_prefix_def py_index_def)
  moreover have "prefix (t @ ''--'') (t @ ''--'' @ grouped h)"
    by simp
  ultimately show ?thesis
    using IDProperty_validate_str [OF new_ID_prefix [OF assms(2)]]
    by (simp add: validate_new_ID [OF assms(2)] u)
qed

lemma IDProperty_call_default:
  "new_IDProperty (PStr t) = Inr p \<Longrightarrow>
     call_default p r = Inr (PStr (t @ ''--'' @ UUID_str (uuid_uuid4 r)))"
  by (auto simp add: new_IDProperty_def call_default_def IDProperty_default_def)

text \<open>
  Claim C7, as the code has it. For a type token \<open>t\<close> that does not hold \<open>--\<close>, the
  identifier that \<open>IDProperty(t).default()\<close> returns is \<open>t + "--" + <uuid-v4>\<close>, and
  \<open>IDProperty(t).validate\<close> accepts it and returns it unchanged.
\<close>

theorem C7_default_validates:
  assumes "\<not> double_hyphen t" and "new_IDProperty (PStr t) = Inr p"
  shows "call_default p r = Inr (PStr (t @ ''--'' @ UUID_str (uuid_uuid4 r)))
         \<and> is_uuid4_string (UUID_str (uuid_uuid4 r))
         \<and> validate E p (PStr (t @ ''--'' @ UUID_str (uuid_uuid4 r))) =
             Inr (PStr (t @ ''--'' @ UUID_str (uuid_uuid4 r)))"
  using IDProperty_call_default [OF assms(2)] uuid4_string IDProperty_roundtrip [OF assms]
  by blast

lemma UUID_str_0: "UUID_str (uuid_uuid4 0) = ''00000000-0000-4000-8000-000000000000''"
  by code_simp

theorem C7_default_validates_witness:
  "\<not> double_hyphen ''malware''
   \<and> new_IDProperty (PStr ''malware'') =
       Inr (Property_init (set_required_prefix ''malware--'' (blank IDProperty)) no_kwargs)
   \<and> call_default
        (Property_init (set_required_prefix ''malware--'' (blank IDProperty)) no_kwargs) 0 =
       Inr (PStr ''malware--00000000-0000-4000-8000-000000000000'')
   \<and> is_uuid4_string ''00000000-0000-4000-8000-000000000000''
   \<and> validate example_env
        (Property_init (set_required_prefix ''malware--'' (blank IDProperty)) no_kwargs)
        (PStr ''malware--00000000-0000-4000-8000-000000000000'') =
       Inr (PStr ''malware--00000000-0000-4000-8000-000000000000'')"
proof -
  have a: "\<not> double_hyphen ''malware''" by simp
  have b: "new_IDProperty (PStr ''malware'') =
       Inr (Property_init (set_required_prefix ''malware--'' (blank IDProperty)) no_kwargs)"
    by (simp add: new_IDProperty_str)
  from C7_default_validates [OF a b, of 0 example_env] a b show ?thesis
    by (simp add: UUID_str_0)
qed

lemma uuid_after_prefix_double:
  "uuid_after_prefix ''a--b--00000000-0000-4000-8000-000000000000'' =
     Inl (ValueError ''badly formed hexadecimal UUID string'')"
  by code_simp

text \<open>
  The claim as stated fails for a type token that holds \<open>--\<close>: \<open>validate\<close> reads the UUID
  after the first \<open>--\<close> of the value, which then lies inside the token.
\<close>

theorem C7_double_hyphen_type_counterexample:
  "new_IDProperty (PStr ''a--b'') =
     Inr (Property_init (set_required_prefix ''a--b--'' (blank IDProperty)) no_kwargs)
   \<and> call_default
        (Property_init (set_required_prefix ''a--b--'' (blank IDProperty)) no_kwargs) 0 =
       Inr (PStr ''a--b--00000000-0000-4000-8000-000000000000'')
   \<and> validate example_env
        (Property_init (set_required_prefix ''a--b--'' (blank IDProperty)) no_kwargs)
        (PStr ''a--b--00000000-0000-4000-8000-000000000000'') =
       Inl (ValueError ''must have a valid version 4 UUID after the prefix.'')"
proof -
  have b: "new_IDProperty (PStr ''a--b'') =
     Inr (Property_init (set_required_prefix ''a--b--'' (blank IDProperty)) no_kwargs)"
    by (simp add: new_IDProperty_str)
  have pre: "p_required_prefix
      (Property_init (set_required_prefix ''a--b--'' (blank IDProperty)) no_kwargs) =
      Some ''a--b--''"
    by simp
  have d: "call_default
        (Property_init (set_required_prefix ''a--b--'' (blank IDProperty)) no_kwargs) 0 =
       Inr (PStr ''a--b--00000000-0000-4000-8000-000000000000'')"
    using IDProperty_call_default [OF b, of 0] by (simp add: UUID_str_0)
  have v: "validate example_env
        (Property_init (set_required_prefix ''a--b--'' (blank IDProperty)) no_kwargs)
        (PStr ''a--b--00000000-0000-4000-8000-000000000000'') =
       Inl (ValueError ''must have a valid version 4 UUID after the prefix.'')"
    by (simp add: validate_new_ID [OF b] IDProperty_validate_str [OF pre]
        uuid_after_prefix_double)
  from b d v show ?thesis by blast
qed

end
